theory Spec2Isabelle
  imports Complex_Main
begin

section \<open>Tensor elements\<close>

text \<open>
  A tensor element is a floating-point number. The losses of
  \<^verbatim>\<open>training/forward_func.py\<close> depend on one special float, the NaN marker of the
  ground-truth correspondence maps, so an element is either \<open>NaN\<close> or a finite number.
  Finite numbers are reals: rounding and overflow to infinity are not part of the model.
  Arithmetic propagates \<open>NaN\<close> as IEEE arithmetic does. Infinities are not modelled: a
  division by zero is \<open>NaN\<close>. The losses divide by a count plus one, by the positive size of
  an axis or by two, never by zero.
\<close>

datatype val = NaN | Fin real

fun visnan :: "val \<Rightarrow> bool" where
  "visnan NaN = True"
| "visnan (Fin _) = False"

fun vadd :: "val \<Rightarrow> val \<Rightarrow> val" where
  "vadd (Fin a) (Fin b) = Fin (a + b)"
| "vadd _ _ = NaN"

fun vsub :: "val \<Rightarrow> val \<Rightarrow> val" where
  "vsub (Fin a) (Fin b) = Fin (a - b)"
| "vsub _ _ = NaN"

fun vmul :: "val \<Rightarrow> val \<Rightarrow> val" where
  "vmul (Fin a) (Fin b) = Fin (a * b)"
| "vmul _ _ = NaN"

fun vdiv :: "val \<Rightarrow> val \<Rightarrow> val" where
  "vdiv (Fin a) (Fin b) = (if b = 0 then NaN else Fin (a / b))"
| "vdiv _ _ = NaN"

fun vneg :: "val \<Rightarrow> val" where
  "vneg (Fin a) = Fin (- a)"
| "vneg NaN = NaN"

fun vsqrt :: "val \<Rightarrow> val" where
  "vsqrt (Fin a) = (if a < 0 then NaN else Fin (sqrt a))"
| "vsqrt NaN = NaN"

fun vexp :: "val \<Rightarrow> val" where
  "vexp (Fin a) = Fin (exp a)"
| "vexp NaN = NaN"

text \<open>Comparisons with \<open>NaN\<close> are false, as in IEEE arithmetic.\<close>

fun vlt :: "val \<Rightarrow> val \<Rightarrow> bool" where
  "vlt (Fin a) (Fin b) = (a < b)"
| "vlt _ _ = False"

text \<open>\<^verbatim>\<open>t.sum()\<close> over one axis, and \<^verbatim>\<open>t.mean()\<close>: the mean of no element is NaN in torch.\<close>

fun vsum :: "val list \<Rightarrow> val" where
  "vsum [] = Fin 0"
| "vsum (x # xs) = vadd x (vsum xs)"

definition vmean :: "val list \<Rightarrow> val" where
  "vmean xs = vdiv (vsum xs) (Fin (real (length xs)))"

section \<open>Tensors as nested lists\<close>

text \<open>
  A tensor of shape \<open>(B, C, K, H, W)\<close> is a list of \<open>B\<close> lists of \<open>C\<close> lists ... of \<open>W\<close>
  elements. torch tensors are rectangular by construction; \<open>shape5\<close> says so of a nested
  list. Elementwise operations on two tensors follow the shorter list where the shapes
  differ (torch would broadcast or raise there); every theorem below is about operands
  of one shape.
\<close>

type_synonym 'a tensor2 = "'a list list"
type_synonym 'a tensor3 = "'a list list list"
type_synonym 'a tensor4 = "'a list list list list"
type_synonym 'a tensor5 = "'a list list list list list"

definition shape1 :: "nat \<Rightarrow> 'a list \<Rightarrow> bool" where
  "shape1 W t = (length t = W)"

definition shape2 :: "nat \<Rightarrow> nat \<Rightarrow> 'a tensor2 \<Rightarrow> bool" where
  "shape2 H W t = (length t = H \<and> list_all (shape1 W) t)"

definition shape3 :: "nat \<Rightarrow> nat \<Rightarrow> nat \<Rightarrow> 'a tensor3 \<Rightarrow> bool" where
  "shape3 K H W t = (length t = K \<and> list_all (shape2 H W) t)"

definition shape4 :: "nat \<Rightarrow> nat \<Rightarrow> nat \<Rightarrow> nat \<Rightarrow> 'a tensor4 \<Rightarrow> bool" where
  "shape4 C K H W t = (length t = C \<and> list_all (shape3 K H W) t)"

definition shape5 :: "nat \<Rightarrow> nat \<Rightarrow> nat \<Rightarrow> nat \<Rightarrow> nat \<Rightarrow> 'a tensor5 \<Rightarrow> bool" where
  "shape5 B C K H W t = (length t = B \<and> list_all (shape4 C K H W) t)"

text \<open>\<^verbatim>\<open>t.flatten(start_dim=2)\<close> on a five-dimensional tensor: row-major order.\<close>

definition flatten3 :: "'a tensor3 \<Rightarrow> 'a list" where
  "flatten3 x = concat (concat x)"

definition flatten_start2 :: "'a tensor5 \<Rightarrow> 'a tensor3" where
  "flatten_start2 t = map (map flatten3) t"

text \<open>\<^verbatim>\<open>torch.where(mask, c, t)\<close> with a scalar \<open>c\<close>, on one axis and on three.\<close>

definition where1 :: "bool list \<Rightarrow> 'a \<Rightarrow> 'a list \<Rightarrow> 'a list" where
  "where1 msk c t = map2 (\<lambda>m x. if m then c else x) msk t"

definition where3 :: "bool tensor3 \<Rightarrow> 'a \<Rightarrow> 'a tensor3 \<Rightarrow> 'a tensor3" where
  "where3 msk c t = map2 (map2 (\<lambda>m x. where1 m c x)) msk t"

section \<open>Errors and the base loss\<close>

datatype error = AssertionError | ValueError | IndexError | UnboundLocalError | RuntimeError

text \<open>
  A torch loss module (\<^verbatim>\<open>_Loss\<close>): its \<^verbatim>\<open>reduction\<close> attribute and the function it
  applies to each pair of elements. With reduction \<^verbatim>\<open>'none'\<close> the module returns the
  tensor of those values.
\<close>

record loss_fn =
  reduction :: string
  elem :: "val \<Rightarrow> val \<Rightarrow> val"

definition apply_loss1 :: "loss_fn \<Rightarrow> val list \<Rightarrow> val list \<Rightarrow> val list" where
  "apply_loss1 l p g = map2 (elem l) p g"

definition apply_loss3 :: "loss_fn \<Rightarrow> val tensor3 \<Rightarrow> val tensor3 \<Rightarrow> val tensor3" where
  "apply_loss3 l p g = map2 (map2 (apply_loss1 l)) p g"

definition MSELoss :: loss_fn where
  "MSELoss = \<lparr>reduction = ''none'', elem = (\<lambda>p g. vmul (vsub p g) (vsub p g))\<rparr>"

section \<open>Dense UV regression loss\<close>

text \<open>\<^verbatim>\<open>uv.isnan().all()\<close>: true of a tensor without elements.\<close>

definition isnan_all5 :: "val tensor5 \<Rightarrow> bool" where
  "isnan_all5 t = list_all (list_all (list_all (list_all (list_all visnan)))) t"

text \<open>
  \<^verbatim>\<open>balanced_normalized_uv_loss(uv_hat, uv, loss_fn)\<close>: both assertions, the flattening,
  the NaN mask of the ground truth, the two \<^verbatim>\<open>torch.where\<close>, the count of valid
  elements of each (batch, class) row and the division by that count plus one.
\<close>

definition balanced_normalized_uv_loss ::
  "val tensor5 \<Rightarrow> val tensor5 \<Rightarrow> loss_fn \<Rightarrow> error + val tensor2" where
  "balanced_normalized_uv_loss uv_hat uv l =
     (if reduction l \<noteq> ''none'' then Inl AssertionError
      else if isnan_all5 uv then Inl AssertionError
      else
        let uv_hat_flat = flatten_start2 uv_hat;
            uv_flat = flatten_start2 uv;
            nan_gt_mask = map (map (map visnan)) uv_flat;
            uv_flat = where3 nan_gt_mask (Fin 0) uv_flat;
            uv_hat_flat = where3 nan_gt_mask (Fin 0) uv_hat_flat;
            valid_pxl = map (map (\<lambda>m. length (filter Not m))) nan_gt_mask;
            loss = map2 (map2 (\<lambda>s n. vdiv s (Fin (real (n + 1)))))
                     (map (map vsum) (apply_loss3 l uv_hat_flat uv_flat)) valid_pxl
        in Inr loss)"

text \<open>
  \<^verbatim>\<open>uv.isnan().any()\<close>, the negation of which \<^verbatim>\<open>landmark_uv_loss\<close> asserts.
\<close>

definition isnan_any5 :: "val tensor5 \<Rightarrow> bool" where
  "isnan_any5 t = list_ex (list_ex (list_ex (list_ex (list_ex visnan)))) t"

subsection \<open>The dense loss in the words of the specification\<close>

text \<open>
  The index triples \<open>(k, i, j)\<close> of one (batch, class) row, in row-major order, and the
  reference computation: at each position the ground truth decides whether both operands
  are replaced by zero; the elementwise losses are summed and divided by the number of
  valid positions plus one.
\<close>

definition idx3 :: "nat \<Rightarrow> nat \<Rightarrow> nat \<Rightarrow> (nat \<times> nat \<times> nat) list" where
  "idx3 K H W = [(k, i, j). k \<leftarrow> [0..<K], i \<leftarrow> [0..<H], j \<leftarrow> [0..<W]]"

definition dense_reference ::
  "nat \<Rightarrow> nat \<Rightarrow> nat \<Rightarrow> nat \<Rightarrow> nat \<Rightarrow> val tensor5 \<Rightarrow> val tensor5 \<Rightarrow> loss_fn \<Rightarrow> val tensor2" where
  "dense_reference B C K H W uv_hat uv l =
     map (\<lambda>b. map (\<lambda>c.
        vdiv (vsum [elem l (if visnan (uv ! b ! c ! k ! i ! j) then Fin 0 else uv_hat ! b ! c ! k ! i ! j)
                           (if visnan (uv ! b ! c ! k ! i ! j) then Fin 0 else uv ! b ! c ! k ! i ! j).
                    (k, i, j) \<leftarrow> idx3 K H W])
             (Fin (real (length [x \<leftarrow> idx3 K H W. case x of (k, i, j) \<Rightarrow> \<not> visnan (uv ! b ! c ! k ! i ! j)] + 1))))
        [0..<C]) [0..<B]"

text \<open>
  The plain loss: the elementwise loss of the unmodified operands, summed over a row and
  divided by the number of elements of the row plus one.
\<close>

definition plain_elementwise_loss ::
  "nat \<Rightarrow> nat \<Rightarrow> nat \<Rightarrow> nat \<Rightarrow> nat \<Rightarrow> val tensor5 \<Rightarrow> val tensor5 \<Rightarrow> loss_fn \<Rightarrow> val tensor2" where
  "plain_elementwise_loss B C K H W uv_hat uv l =
     map (\<lambda>b. map (\<lambda>c.
        vdiv (vsum [elem l (uv_hat ! b ! c ! k ! i ! j) (uv ! b ! c ! k ! i ! j). (k, i, j) \<leftarrow> idx3 K H W])
             (Fin (real (K * H * W + 1))))
        [0..<C]) [0..<B]"

section \<open>Total variation\<close>

text \<open>
  The sizes of the axes after the first, read off the first element of each axis (zero
  when there is none); on a rectangular tensor without an empty axis they are the entries
  of \<^verbatim>\<open>t.shape\<close>.
\<close>

definition dim1 :: "'a tensor2 \<Rightarrow> nat" where
  "dim1 t = (case t of [] \<Rightarrow> 0 | x # _ \<Rightarrow> length x)"

definition dim2 :: "'a tensor3 \<Rightarrow> nat" where
  "dim2 t = (case t of [] \<Rightarrow> 0 | x # _ \<Rightarrow> dim1 x)"

definition dim3 :: "'a tensor4 \<Rightarrow> nat" where
  "dim3 t = (case t of [] \<Rightarrow> 0 | x # _ \<Rightarrow> dim2 x)"

definition dim4 :: "'a tensor5 \<Rightarrow> nat" where
  "dim4 t = (case t of [] \<Rightarrow> 0 | x # _ \<Rightarrow> dim3 x)"

text \<open>
  \<^verbatim>\<open>torch.gradient(uv, dim=(3, 4), edge_order=1)\<close> with unit spacing, a function of
  the torch library: along an axis it is the one-sided difference at both ends and half
  the central difference between them. \<open>diff1 f i\<close> is its value at position \<open>i\<close> of the
  sequence \<open>f\<close>. torch raises a \<^verbatim>\<open>RuntimeError\<close> when an axis has fewer than two
  elements; the check is in \<open>total_variation\<close>.
\<close>

definition diff1 :: "val list \<Rightarrow> nat \<Rightarrow> val" where
  "diff1 f i =
     (let n = length f in
      if i = 0 then vsub (f ! 1) (f ! 0)
      else if i = n - 1 then vsub (f ! (n - 1)) (f ! (n - 2))
      else vdiv (vsub (f ! (i + 1)) (f ! (i - 1))) (Fin 2))"

text \<open>On one height-by-width plane: along the height (axis 3) and along the width (axis 4).\<close>

definition gradient_rows :: "val tensor2 \<Rightarrow> val tensor2" where
  "gradient_rows x =
     map (\<lambda>i. map (\<lambda>j. diff1 (map (\<lambda>row. row ! j) x) i) [0..<dim1 x]) [0..<length x]"

definition gradient_cols :: "val tensor2 \<Rightarrow> val tensor2" where
  "gradient_cols x = map (\<lambda>row. map (diff1 row) [0..<length row]) x"

definition gradient34 :: "val tensor5 \<Rightarrow> val tensor5 \<times> val tensor5" where
  "gradient34 t = (map (map (map gradient_rows)) t, map (map (map gradient_cols)) t)"

text \<open>\<^verbatim>\<open>torch.stack(..., dim=-1)\<close> of the two gradients, and the 2-norm of a vector.\<close>

definition stack_last :: "val tensor5 \<times> val tensor5 \<Rightarrow> val list tensor5" where
  "stack_last g = map2 (map2 (map2 (map2 (map2 (\<lambda>a b. [a, b]))))) (fst g) (snd g)"

definition vector_norm :: "val list \<Rightarrow> val" where
  "vector_norm v = vsqrt (vsum (map (\<lambda>x. vmul x x) v))"

text \<open>\<^verbatim>\<open>tv.mean(2)\<close> on one (batch, class) entry: the mean over the UV axis.\<close>

definition mean_dim0 :: "val tensor3 \<Rightarrow> val tensor2" where
  "mean_dim0 x =
     map (\<lambda>i. map (\<lambda>j. vmean (map (\<lambda>p. p ! i ! j) x)) [0..<dim2 x]) [0..<dim1 x]"

text \<open>\<^verbatim>\<open>torch.where(mask, tv, c)\<close> with a scalar \<open>c\<close>.\<close>

definition where4 :: "bool tensor4 \<Rightarrow> val tensor4 \<Rightarrow> val \<Rightarrow> val tensor4" where
  "where4 msk t c = map2 (map2 (map2 (map2 (\<lambda>m x. if m then x else c)))) msk t"

text \<open>
  \<^verbatim>\<open>total_variation(uv, mask)\<close>. The mask is a tensor of booleans by its type, so the
  assertion on its dtype holds; the assertion on its shape is the first check. The order
  of the steps is the source's: the values outside the mask are set to zero before the
  square is taken.
\<close>

definition total_variation :: "val tensor5 \<Rightarrow> bool tensor4 \<Rightarrow> error + val tensor2" where
  "total_variation uv msk =
     (let B = length uv; C = dim1 uv; H = dim3 uv; W = dim4 uv in
      if \<not> shape4 B C H W msk then Inl AssertionError
      else if H < 2 \<or> W < 2 then Inl RuntimeError
      else
        let tv = stack_last (gradient34 uv);
            tv = map (map (map (map (map vector_norm)))) tv;
            tv = map (map mean_dim0) tv;
            tv = where4 msk tv (Fin 0);
            tv = map (map (map (map (\<lambda>x. vmul x x)))) tv;
            tv = map2 (map2 (\<lambda>s n. vdiv s (Fin (real (n + 1)))))
                   (map (map (\<lambda>p. vsum (concat p))) tv)
                   (map (map (\<lambda>p. length (filter id (concat p)))) msk)
        in Inr tv)"

subsection \<open>Total variation in the words of the specification\<close>

text \<open>
  At a pixel: the Euclidean norm of the two first-order differences of one UV channel,
  the mean of that norm over the UV channels, squared, and zero outside the mask; then
  the sum over the pixels, divided by the number of masked pixels plus one.
\<close>

definition idx2 :: "nat \<Rightarrow> nat \<Rightarrow> (nat \<times> nat) list" where
  "idx2 H W = [(i, j). i \<leftarrow> [0..<H], j \<leftarrow> [0..<W]]"

definition sq :: "val \<Rightarrow> val" where
  "sq x = vmul x x"

definition grad_norm :: "nat \<Rightarrow> nat \<Rightarrow> val tensor2 \<Rightarrow> nat \<Rightarrow> nat \<Rightarrow> val" where
  "grad_norm H W p i j =
     vsqrt (vadd (sq (diff1 [p ! i' ! j. i' \<leftarrow> [0..<H]] i))
                 (sq (diff1 [p ! i ! j'. j' \<leftarrow> [0..<W]] j)))"

definition tv_reference ::
  "nat \<Rightarrow> nat \<Rightarrow> nat \<Rightarrow> nat \<Rightarrow> nat \<Rightarrow> val tensor5 \<Rightarrow> bool tensor4 \<Rightarrow> val tensor2" where
  "tv_reference B C K H W uv msk =
     map (\<lambda>b. map (\<lambda>c.
        vdiv (vsum [if msk ! b ! c ! i ! j
                    then sq (vmean [grad_norm H W (uv ! b ! c ! k) i j. k \<leftarrow> [0..<K]])
                    else Fin 0.
                    (i, j) \<leftarrow> idx2 H W])
             (Fin (real (length [x \<leftarrow> idx2 H W. case x of (i, j) \<Rightarrow> msk ! b ! c ! i ! j] + 1))))
        [0..<C]) [0..<B]"

section \<open>Sparse landmark loss\<close>

text \<open>
  \<^verbatim>\<open>torch.tensor(N_c).cumsum(0)\<close>: the running sums of the landmark counts.
\<close>

fun cumsum_from :: "nat \<Rightarrow> nat list \<Rightarrow> nat list" where
  "cumsum_from acc [] = []"
| "cumsum_from acc (x # xs) = (acc + x) # cumsum_from (acc + x) xs"

definition cumsum :: "nat list \<Rightarrow> nat list" where
  "cumsum xs = cumsum_from 0 xs"

text \<open>
  \<^verbatim>\<open>normalize_pixel_coordinates(landmarks, H, W)\<close> of the kornia library: each
  coordinate is scaled by two over the axis size minus one (not below \<open>eps\<close>) and moved
  down by one. A landmark is a pair \<open>(x, y)\<close>; the landmark tensor has one list of
  \<open>N\<close> landmarks for each batch element.
\<close>

definition clamp_min :: "real \<Rightarrow> real \<Rightarrow> real" where
  "clamp_min x lo = max x lo"

definition normalize_pixel_coordinates ::
  "(val \<times> val) tensor2 \<Rightarrow> nat \<Rightarrow> nat \<Rightarrow> (val \<times> val) tensor2" where
  "normalize_pixel_coordinates pixel_coordinates height width =
     (let eps = 1 / 10 ^ 8;
          factor_x = Fin (2 / clamp_min (real width - 1) eps);
          factor_y = Fin (2 / clamp_min (real height - 1) eps)
      in map (map (\<lambda>(x, y). (vsub (vmul factor_x x) (Fin 1), vsub (vmul factor_y y) (Fin 1))))
           pixel_coordinates)"

text \<open>
  \<^verbatim>\<open>((sample_point < -1) | (sample_point > 1)).any(dim=-1)\<close> at one landmark.
\<close>

definition outside :: "val \<times> val \<Rightarrow> bool" where
  "outside p = (case p of (x, y) \<Rightarrow>
     (vlt x (Fin (- 1)) \<or> vlt (Fin 1) x) \<or> (vlt y (Fin (- 1)) \<or> vlt (Fin 1) y))"

text \<open>
  \<^verbatim>\<open>t[outside_mask] = 0\<close> on a tensor of shape \<open>(B, N_c, 2)\<close> with a mask of shape
  \<open>(B, N_c)\<close>, and \<^verbatim>\<open>loss[:, c] = v\<close>.
\<close>

definition zero_rows :: "bool tensor2 \<Rightarrow> val tensor3 \<Rightarrow> val tensor3" where
  "zero_rows msk t = map2 (map2 (\<lambda>m row. if m then map (\<lambda>_. Fin 0) row else row)) msk t"

definition set_column :: "nat \<Rightarrow> val list \<Rightarrow> val tensor2 \<Rightarrow> val tensor2" where
  "set_column c v loss = map2 (\<lambda>row x. row[c := x]) loss v"

text \<open>
  The body of the loop over the classes. \<^verbatim>\<open>F.grid_sample\<close> is a function of the
  torch library: for each batch element and each point of the grid it interpolates the
  \<open>UV\<close> channels of its input at that point, so that after \<^verbatim>\<open>squeeze\<close> and
  \<^verbatim>\<open>permute\<close> the tensor has shape \<open>(B, N_c, UV)\<close>. The model takes the interpolation at
  one point as the parameter \<open>sample\<close>. Indexing the tensor \<^verbatim>\<open>anatomy_idx\<close> out of range
  and assigning through a mask whose shape differs from the tensor's raise
  \<^verbatim>\<open>IndexError\<close>.
\<close>

definition class_step ::
  "(val tensor3 \<Rightarrow> val \<times> val \<Rightarrow> val list) \<Rightarrow> val tensor5 \<Rightarrow> (val \<times> val) tensor2 \<Rightarrow> nat list \<Rightarrow>
   val tensor3 \<Rightarrow> loss_fn \<Rightarrow> nat \<Rightarrow> val tensor2 \<Rightarrow> error + val tensor2" where
  "class_step sample uv norm_lm anatomy_idx landmark_uv_values l c loss =
     (if length anatomy_idx \<le> c + 1 then Inl IndexError
      else
        let start_idx = anatomy_idx ! c;
            end_idx = anatomy_idx ! (c + 1);
            sample_point = map (\<lambda>row. take (end_idx - start_idx) (drop start_idx row)) norm_lm;
            outside_mask = map (map outside) sample_point
        in if list_all (list_all id) outside_mask then Inr loss
           else
             let uv_values_hat = map2 (\<lambda>u pts. map (sample (u ! c)) pts) uv sample_point;
                 uv_values = replicate (length uv) (landmark_uv_values ! c)
             in if \<not> list_all2 (\<lambda>m v. length m = length v) outside_mask uv_values
                then Inl IndexError
                else
                  let uv_values = zero_rows outside_mask uv_values;
                      uv_values_hat = zero_rows outside_mask uv_values_hat
                  in Inr (set_column c
                       (map (\<lambda>x. vmean (concat x))
                          (map2 (map2 (apply_loss1 l)) uv_values_hat uv_values))
                       loss))"

text \<open>\<^verbatim>\<open>for c in range(C)\<close>: the first error ends the loop.\<close>

fun class_loop ::
  "(nat \<Rightarrow> val tensor2 \<Rightarrow> error + val tensor2) \<Rightarrow> nat list \<Rightarrow> val tensor2 \<Rightarrow> error + val tensor2" where
  "class_loop body [] loss = Inr loss"
| "class_loop body (c # cs) loss =
     (case body c loss of Inl e \<Rightarrow> Inl e | Inr loss' \<Rightarrow> class_loop body cs loss')"

text \<open>
  \<^verbatim>\<open>landmark_uv_loss(uv, landmarks, landmark_uv_values, loss_fn)\<close>: \<open>uv\<close> is the
  predicted map, \<open>landmark_uv_values\<close> the ground-truth UV values of the landmarks of
  each class.
\<close>

definition landmark_uv_loss ::
  "(val tensor3 \<Rightarrow> val \<times> val \<Rightarrow> val list) \<Rightarrow> val tensor5 \<Rightarrow> (val \<times> val) tensor2 \<Rightarrow>
   val tensor3 \<Rightarrow> loss_fn \<Rightarrow> error + val tensor2" where
  "landmark_uv_loss sample uv landmarks landmark_uv_values l =
     (if reduction l \<noteq> ''none'' then Inl AssertionError
      else if isnan_any5 uv then Inl AssertionError
      else
        let B = length uv; C = dim1 uv; H = dim3 uv; W = dim4 uv;
            norm_lm = normalize_pixel_coordinates landmarks H W;
            N_c = 0 # map length landmark_uv_values;
            anatomy_idx = cumsum N_c;
            loss = replicate B (replicate C (Fin 0))
        in class_loop (class_step sample uv norm_lm anatomy_idx landmark_uv_values l) [0..<C] loss)"

text \<open>
  Bilinear interpolation with \<^verbatim>\<open>align_corners=True\<close> and zero padding, as torch
  documents it for \<^verbatim>\<open>grid_sample\<close>: the sampler of the examples below.
\<close>

definition bilinear :: "val tensor3 \<Rightarrow> val \<times> val \<Rightarrow> val list" where
  "bilinear inp p =
     (case p of
        (Fin x, Fin y) \<Rightarrow>
          let H = dim1 inp; W = dim2 inp;
              ix = (x + 1) / 2 * (real W - 1);
              iy = (y + 1) / 2 * (real H - 1);
              x0 = \<lfloor>ix\<rfloor>; y0 = \<lfloor>iy\<rfloor>;
              px = (\<lambda>ch yy xx. if 0 \<le> yy \<and> yy < int H \<and> 0 \<le> xx \<and> xx < int W
                                then ch ! nat yy ! nat xx else Fin 0)
          in map (\<lambda>ch.
               vadd (vadd (vmul (Fin ((real_of_int x0 + 1 - ix) * (real_of_int y0 + 1 - iy))) (px ch y0 x0))
                          (vmul (Fin ((ix - real_of_int x0) * (real_of_int y0 + 1 - iy))) (px ch y0 (x0 + 1))))
                    (vadd (vmul (Fin ((real_of_int x0 + 1 - ix) * (iy - real_of_int y0))) (px ch (y0 + 1) x0))
                          (vmul (Fin ((ix - real_of_int x0) * (iy - real_of_int y0))) (px ch (y0 + 1) (x0 + 1)))))
               inp
      | _ \<Rightarrow> map (\<lambda>_. NaN) inp)"

subsection \<open>The value of one class, by index\<close>

text \<open>
  \<open>class_point\<close> is landmark \<open>n\<close> of class \<open>c\<close> in batch element \<open>b\<close>.
  \<open>masked_landmark_losses\<close> lists the elementwise losses of the class: at a landmark out of
  range both operands are zero. \<open>sparse_reference\<close> is their mean over all \<open>N_c * K\<close>
  elements; \<open>sparse_count_normalised\<close> divides their sum by the number of valid elements
  plus one instead, as the dense loss does.
\<close>

definition class_point :: "(val \<times> val) tensor2 \<Rightarrow> val tensor3 \<Rightarrow> nat \<Rightarrow> nat \<Rightarrow> nat \<Rightarrow> val \<times> val" where
  "class_point norm_lm gt c b n = norm_lm ! b ! (sum_list (take c (map length gt)) + n)"

definition masked_landmark_losses ::
  "(val tensor3 \<Rightarrow> val \<times> val \<Rightarrow> val list) \<Rightarrow> val tensor5 \<Rightarrow> (val \<times> val) tensor2 \<Rightarrow>
   val tensor3 \<Rightarrow> loss_fn \<Rightarrow> nat \<Rightarrow> nat \<Rightarrow> nat \<Rightarrow> val list" where
  "masked_landmark_losses sample uv norm_lm gt l K c b =
     [elem l (if outside (class_point norm_lm gt c b n) then Fin 0
              else sample (uv ! b ! c) (class_point norm_lm gt c b n) ! k)
             (if outside (class_point norm_lm gt c b n) then Fin 0 else gt ! c ! n ! k).
      n \<leftarrow> [0..<length (gt ! c)], k \<leftarrow> [0..<K]]"

definition sparse_reference ::
  "(val tensor3 \<Rightarrow> val \<times> val \<Rightarrow> val list) \<Rightarrow> val tensor5 \<Rightarrow> (val \<times> val) tensor2 \<Rightarrow>
   val tensor3 \<Rightarrow> loss_fn \<Rightarrow> nat \<Rightarrow> nat \<Rightarrow> nat \<Rightarrow> val" where
  "sparse_reference sample uv norm_lm gt l K c b =
     vdiv (vsum (masked_landmark_losses sample uv norm_lm gt l K c b))
          (Fin (real (length (gt ! c) * K)))"

definition sparse_count_normalised ::
  "(val tensor3 \<Rightarrow> val \<times> val \<Rightarrow> val list) \<Rightarrow> val tensor5 \<Rightarrow> (val \<times> val) tensor2 \<Rightarrow>
   val tensor3 \<Rightarrow> loss_fn \<Rightarrow> nat \<Rightarrow> nat \<Rightarrow> nat \<Rightarrow> val" where
  "sparse_count_normalised sample uv norm_lm gt l K c b =
     vdiv (vsum (masked_landmark_losses sample uv norm_lm gt l K c b))
          (Fin (real (length [(n, k). n \<leftarrow> [0..<length (gt ! c)], k \<leftarrow> [0..<K],
                                      \<not> outside (class_point norm_lm gt c b n)] + 1)))"

text \<open>
  The value the loop gives a class that is not skipped, and the loss tensor after the
  classes below \<open>k\<close>; both are used in the proofs only.
\<close>

definition class_value ::
  "(val tensor3 \<Rightarrow> val \<times> val \<Rightarrow> val list) \<Rightarrow> val tensor5 \<Rightarrow> (val \<times> val) tensor2 \<Rightarrow>
   val tensor3 \<Rightarrow> loss_fn \<Rightarrow> nat \<Rightarrow> nat \<Rightarrow> val" where
  "class_value sample uv norm_lm gt l c b =
     vmean (concat (map (\<lambda>n.
        apply_loss1 l
          (if outside (class_point norm_lm gt c b n)
           then map (\<lambda>_. Fin 0) (sample (uv ! b ! c) (class_point norm_lm gt c b n))
           else sample (uv ! b ! c) (class_point norm_lm gt c b n))
          (if outside (class_point norm_lm gt c b n)
           then map (\<lambda>_. Fin 0) (gt ! c ! n) else gt ! c ! n))
        [0..<length (gt ! c)]))"

definition all_outside :: "(val \<times> val) tensor2 \<Rightarrow> val tensor3 \<Rightarrow> nat \<Rightarrow> nat \<Rightarrow> bool" where
  "all_outside norm_lm gt B c =
     list_all (\<lambda>b. list_all (\<lambda>n. outside (class_point norm_lm gt c b n)) [0..<length (gt ! c)]) [0..<B]"

definition sparse_table ::
  "(val tensor3 \<Rightarrow> val \<times> val \<Rightarrow> val list) \<Rightarrow> val tensor5 \<Rightarrow> (val \<times> val) tensor2 \<Rightarrow>
   val tensor3 \<Rightarrow> loss_fn \<Rightarrow> nat \<Rightarrow> val tensor2" where
  "sparse_table sample uv norm_lm gt l k =
     map (\<lambda>b. map (\<lambda>c.
        if c < k \<and> \<not> all_outside norm_lm gt (length uv) c
        then class_value sample uv norm_lm gt l c b else Fin 0)
        [0..<dim1 uv]) [0..<length uv]"

section \<open>Loss composition\<close>

text \<open>
  \<^verbatim>\<open>forward\<close> on one batch: the assertion on the weights, the check of \<^verbatim>\<open>mode\<close>, the
  unpacking of the three weights, the four losses and their composition. The arguments
  \<open>bce\<close>, \<open>reg\<close>, \<open>lm\<close> and \<open>tv\<close> are what the calls
  \<^verbatim>\<open>F.binary_cross_entropy_with_logits(...)\<close>,
  \<^verbatim>\<open>balanced_normalized_uv_loss(...).mean()\<close>, \<^verbatim>\<open>landmark_uv_loss(...).mean()\<close> and
  \<^verbatim>\<open>total_variation(...).mean()\<close> give on the batch, an error or a value; a call is
  made only if its weight is not zero, and the loss is the number \<open>0\<close> otherwise.
  No branch assigns \<^verbatim>\<open>uv_loss\<close> when \<^verbatim>\<open>supervision\<close> is neither \<^verbatim>\<open>'dense'\<close> nor
  \<^verbatim>\<open>'sparse'\<close>, and reading it in the next statement raises \<^verbatim>\<open>UnboundLocalError\<close>.
  The result is the pair of \<^verbatim>\<open>loss\<close> and \<^verbatim>\<open>uv_loss\<close>.
\<close>

definition forward_step ::
  "string \<Rightarrow> real list \<Rightarrow> string \<Rightarrow> error + val \<Rightarrow> error + val \<Rightarrow> error + val \<Rightarrow> error + val \<Rightarrow>
   error + val \<times> val" where
  "forward_step mode lambdas supervision bce reg lm tv =
     (if \<not> list_ex (\<lambda>x. x \<noteq> 0) lambdas then Inl AssertionError
      else if mode \<noteq> ''train'' \<and> mode \<notin> set [''test'', ''val''] then Inl ValueError
      else case lambdas of
        [lambda_bce, lambda_reg_uv, lambda_tv] \<Rightarrow>
          (case (if lambda_bce \<noteq> 0 then bce else Inr (Fin 0)) of Inl e \<Rightarrow> Inl e | Inr bce_loss \<Rightarrow>
           case (if lambda_reg_uv \<noteq> 0 then reg else Inr (Fin 0)) of Inl e \<Rightarrow> Inl e | Inr reg_loss \<Rightarrow>
           case (if lambda_reg_uv \<noteq> 0 then lm else Inr (Fin 0)) of Inl e \<Rightarrow> Inl e | Inr lm_loss \<Rightarrow>
           case (if lambda_tv \<noteq> 0 then tv else Inr (Fin 0)) of Inl e \<Rightarrow> Inl e | Inr tv_loss \<Rightarrow>
           case (if supervision = ''dense''
                 then Inr (vadd (vdiv (vmul (Fin lambda_reg_uv) (vadd reg_loss lm_loss)) (Fin 2))
                                (vmul (Fin lambda_tv) tv_loss))
                 else if supervision = ''sparse''
                 then Inr (vadd (vmul (Fin lambda_reg_uv) lm_loss) (vmul (Fin lambda_tv) tv_loss))
                 else Inl UnboundLocalError)
           of Inl e \<Rightarrow> Inl e
            | Inr uv_loss \<Rightarrow> Inr (vadd (vmul (Fin lambda_bce) bce_loss) uv_loss, uv_loss))
      | _ \<Rightarrow> Inl ValueError)"

text \<open>A weighted term of the objective: left out when its weight is zero.\<close>

definition weighted :: "real \<Rightarrow> val \<Rightarrow> val" where
  "weighted w x = (if w = 0 then Fin 0 else vmul (Fin w) x)"

section \<open>Heatmap synthesis\<close>

text \<open>
  The lines of \<^verbatim>\<open>forward_heatmap\<close> that build the ground-truth heatmap; the same lines
  are in \<^verbatim>\<open>forward_heatmap_and_seg\<close>. \<open>meshgrid_xy W H\<close> is
  \<^verbatim>\<open>torch.stack(torch.meshgrid(arange(W), arange(H), indexing='xy'), dim=-1)\<close>: at row
  \<open>i\<close> and column \<open>j\<close> the pair \<open>(j, i)\<close>. \<open>view2 H W\<close> is \<^verbatim>\<open>.view(H, W)\<close> of a list
  of \<open>H * W\<close> elements.
\<close>

definition view2 :: "nat \<Rightarrow> nat \<Rightarrow> 'a list \<Rightarrow> 'a tensor2" where
  "view2 H W xs = map (\<lambda>i. take W (drop (i * W) xs)) [0..<H]"

definition meshgrid_xy :: "nat \<Rightarrow> nat \<Rightarrow> (val \<times> val) tensor2" where
  "meshgrid_xy W H = map (\<lambda>i. map (\<lambda>j. (Fin (real j), Fin (real i))) [0..<W]) [0..<H]"

definition heatmap :: "int \<Rightarrow> int \<Rightarrow> (val \<times> val) tensor2 \<Rightarrow> nat \<Rightarrow> nat \<Rightarrow> val tensor4" where
  "heatmap alpha std_pixel lm H W =
     (let grid = concat (meshgrid_xy W H);
          gaussian = map (map (\<lambda>(lx, ly). map (\<lambda>(gx, gy). (vsub gx lx, vsub gy ly)) grid)) lm;
          gaussian = map (map (map (\<lambda>(dx, dy).
                       vmul (Fin (of_int alpha))
                            (vexp (vdiv (vneg (vadd (vmul dx dx) (vmul dy dy)))
                                        (Fin (of_int (2 * std_pixel ^ 2)))))))) gaussian
      in map (map (view2 H W)) gaussian)"

section \<open>Example inputs\<close>

text \<open>
  A pair of maps of shape \<open>(1, 1, 2, 2, 2)\<close> whose ground truth has two NaN markers, a
  second prediction that differs from the first at those two positions only, a ground
  truth and a prediction without markers, and a ground truth of markers only.
\<close>

definition ex_uv :: "val tensor5" where
  "ex_uv = [[[[[Fin 1, NaN], [Fin 2, Fin 0]], [[Fin 3, NaN], [Fin 1, Fin 1]]]]]"

definition ex_uv_hat :: "val tensor5" where
  "ex_uv_hat = [[[[[Fin 2, Fin 7], [Fin 2, Fin 1]], [[Fin 3, NaN], [Fin 0, Fin 1]]]]]"

definition ex_uv_hat2 :: "val tensor5" where
  "ex_uv_hat2 = [[[[[Fin 2, NaN], [Fin 2, Fin 1]], [[Fin 3, Fin 5], [Fin 0, Fin 1]]]]]"

definition ex_uv_full :: "val tensor5" where
  "ex_uv_full = [[[[[Fin 1, Fin 5], [Fin 2, Fin 0]], [[Fin 3, Fin 4], [Fin 1, Fin 1]]]]]"

definition ex_uv_hat_full :: "val tensor5" where
  "ex_uv_hat_full = [[[[[Fin 2, Fin 7], [Fin 2, Fin 1]], [[Fin 3, Fin 4], [Fin 0, Fin 1]]]]]"

definition ex_uv_allnan :: "val tensor5" where
  "ex_uv_allnan = [[[[[NaN, NaN], [NaN, NaN]], [[NaN, NaN], [NaN, NaN]]]]]"

text \<open>
  A predicted map of shape \<open>(1, 2, 2, 3, 3)\<close>: the first UV channel of the first class
  has the gradient \<open>(4, 3)\<close> everywhere, every other channel is constant. The first mask
  covers one pixel of the first class and no pixel of the second; the second mask is
  empty.
\<close>

definition zeros33 :: "val tensor2" where
  "zeros33 = [[Fin 0, Fin 0, Fin 0], [Fin 0, Fin 0, Fin 0], [Fin 0, Fin 0, Fin 0]]"

definition ramp33 :: "val tensor2" where
  "ramp33 = [[Fin 0, Fin 3, Fin 6], [Fin 4, Fin 7, Fin 10], [Fin 8, Fin 11, Fin 14]]"

definition ex_tv_uv :: "val tensor5" where
  "ex_tv_uv = [[[ramp33, zeros33], [zeros33, zeros33]]]"

definition none33 :: "bool tensor2" where
  "none33 = [[False, False, False], [False, False, False], [False, False, False]]"

definition ex_mask :: "bool tensor4" where
  "ex_mask = [[[[True, False, False], [False, False, False], [False, False, False]], none33]]"

text \<open>
  For the sparse loss: a prediction of shape \<open>(1, 1, 2, 3, 3)\<close> that is zero everywhere
  and one with a NaN; landmarks in pixel coordinates, of which \<open>(1, 1)\<close> is the centre of
  the image and \<open>(10, 10)\<close> and \<open>(10, 1)\<close> are out of range; ground-truth UV values.
\<close>

definition ex_pred :: "val tensor5" where
  "ex_pred = [[[zeros33, zeros33]]]"

definition ex_pred_nan :: "val tensor5" where
  "ex_pred_nan = [[[zeros33, [[Fin 0, Fin 0, Fin 0], [Fin 0, NaN, Fin 0], [Fin 0, Fin 0, Fin 0]]]]]"

definition ex_lm_mixed :: "(val \<times> val) tensor2" where
  "ex_lm_mixed = [[(Fin 1, Fin 1), (Fin 10, Fin 10)]]"

definition ex_lm_out :: "(val \<times> val) tensor2" where
  "ex_lm_out = [[(Fin 10, Fin 1), (Fin 10, Fin 10)]]"

definition ex_gt :: "val tensor3" where
  "ex_gt = [[[Fin 1, Fin 1], [Fin 1, Fin 1]]]"

definition ex_gt_nan :: "val tensor3" where
  "ex_gt_nan = [[[NaN, Fin 1], [Fin 1, Fin 1]]]"

section \<open>Lists of indices and tabulated tensors\<close>

lemma zip_map_same: "zip (map g xs) (map h xs) = map (\<lambda>x. (g x, h x)) xs"
  by (induction xs) auto

lemma list_eta: "length t = n \<Longrightarrow> t = map (\<lambda>i. t ! i) [0..<n]"
  by (auto simp: list_eq_iff_nth_eq)

lemma map_upt_cong: "(\<And>i. i < n \<Longrightarrow> f i = g i) \<Longrightarrow> map f [0..<n] = map g [0..<n]"
  by simp

lemma concat_concat_map: "concat (concat xss) = concat (map concat xss)"
  by (induction xss) auto

lemma length_filter_Not_map: "length (filter Not (map f xs)) = length (filter (\<lambda>x. \<not> f x) xs)"
  by (induction xs) auto

lemma list_all_tab: "list_all P (map f [0..<n]) \<longleftrightarrow> (\<forall>i<n. P (f i))"
  by (auto simp: list_all_iff)

lemma vadd_zero_right: "vadd x (Fin 0) = x"
  by (cases x) simp_all

lemma vsum_zeros: "(\<forall>x \<in> set xs. x = Fin 0) \<Longrightarrow> vsum xs = Fin 0"
  by (induction xs) auto

lemma shape2_eta: "shape2 H W t \<Longrightarrow> t = map (\<lambda>i. map (\<lambda>j. t ! i ! j) [0..<W]) [0..<H]"
  unfolding shape2_def shape1_def
  by (auto simp: list_eq_iff_nth_eq list_all_length)

lemma shape3_nth: "shape3 K H W t \<Longrightarrow> k < K \<Longrightarrow> shape2 H W (t ! k)"
  by (auto simp: shape3_def list_all_length)

lemma shape4_nth: "shape4 C K H W t \<Longrightarrow> c < C \<Longrightarrow> shape3 K H W (t ! c)"
  by (auto simp: shape4_def list_all_length)

lemma shape5_nth: "shape5 B C K H W t \<Longrightarrow> b < B \<Longrightarrow> shape4 C K H W (t ! b)"
  by (auto simp: shape5_def list_all_length)

lemma shape4_eta:
  assumes "shape4 B C H W t"
  shows "t = map (\<lambda>b. map (\<lambda>c. map (\<lambda>i. map (\<lambda>j. t ! b ! c ! i ! j) [0..<W]) [0..<H]) [0..<C]) [0..<B]"
  using assms unfolding shape4_def shape3_def shape2_def shape1_def list_all_length
  by (auto intro!: nth_equalityI)

lemma shape5_eta:
  assumes "shape5 B C K H W t"
  shows "t = map (\<lambda>b. map (\<lambda>c. map (\<lambda>k. map (\<lambda>i. map (\<lambda>j. t ! b ! c ! k ! i ! j) [0..<W]) [0..<H]) [0..<K]) [0..<C]) [0..<B]"
  using assms unfolding shape5_def shape4_def shape3_def shape2_def shape1_def list_all_length
  by (auto intro!: nth_equalityI)

lemma shape5_elem:
  assumes "shape5 B C K H W t" "b < B" "c < C" "k < K" "i < H" "j < W"
  shows "t ! b ! c ! k ! i ! j \<in> set (t ! b ! c ! k ! i)"
    and "t ! b ! c ! k ! i \<in> set (t ! b ! c ! k)"
    and "t ! b ! c ! k \<in> set (t ! b ! c)"
    and "t ! b ! c \<in> set (t ! b)"
    and "t ! b \<in> set t"
  using assms
  by (auto simp: shape5_def shape4_def shape3_def shape2_def shape1_def list_all_length)

lemma set_idx3: "set (idx3 K H W) = {(k, i, j). k < K \<and> i < H \<and> j < W}"
  by (fastforce simp: idx3_def)

lemma length_idx3: "length (idx3 K H W) = K * H * W"
proof -
  have "length (concat (map (\<lambda>k. concat (map (\<lambda>i. map (\<lambda>j. (k, i, j)) [0..<W]) [0..<H])) [0..<K]))
        = K * H * W"
    by (simp add: length_concat comp_def sum_list_triv)
  then show ?thesis by (simp add: idx3_def)
qed

lemma concat_tab2:
  "concat (map (\<lambda>i. map (\<lambda>j. h i j) [0..<W]) [0..<H]) = map (\<lambda>(i, j). h i j) (idx2 H W)"
  by (simp add: idx2_def map_concat comp_def)

lemma dim1_tab: "0 < n \<Longrightarrow> dim1 (map g [0..<n]) = length (g 0)"
  by (simp add: dim1_def upt_conv_Cons)

lemma dim2_tab: "0 < n \<Longrightarrow> dim2 (map g [0..<n]) = dim1 (g 0)"
  by (simp add: dim2_def upt_conv_Cons)

lemma dim3_tab: "0 < n \<Longrightarrow> dim3 (map g [0..<n]) = dim2 (g 0)"
  by (simp add: dim3_def upt_conv_Cons)

lemma dim4_tab: "0 < n \<Longrightarrow> dim4 (map g [0..<n]) = dim3 (g 0)"
  by (simp add: dim4_def upt_conv_Cons)

section \<open>Lemmas on the dense loss\<close>

lemma flatten3_idx:
  assumes "shape3 K H W x"
  shows "flatten3 x = map (\<lambda>(k, i, j). x ! k ! i ! j) (idx3 K H W)"
proof -
  have len: "length x = K" using assms by (simp add: shape3_def)
  have "x = map (\<lambda>k. x ! k) [0..<K]" using len by (rule list_eta)
  also have "\<dots> = map (\<lambda>k. map (\<lambda>i. map (\<lambda>j. x ! k ! i ! j) [0..<W]) [0..<H]) [0..<K]"
    by (rule map_upt_cong) (use assms shape3_nth shape2_eta in blast)
  finally have x: "x = map (\<lambda>k. map (\<lambda>i. map (\<lambda>j. x ! k ! i ! j) [0..<W]) [0..<H]) [0..<K]" .
  have "flatten3 (map (\<lambda>k. map (\<lambda>i. map (\<lambda>j. x ! k ! i ! j) [0..<W]) [0..<H]) [0..<K])
        = map (\<lambda>(k, i, j). x ! k ! i ! j) (idx3 K H W)"
    by (simp add: flatten3_def idx3_def map_concat concat_concat_map comp_def)
  with x show ?thesis by simp
qed

lemma flatten_start2_idx:
  assumes "shape5 B C K H W t"
  shows "flatten_start2 t =
         map (\<lambda>b. map (\<lambda>c. map (\<lambda>(k, i, j). t ! b ! c ! k ! i ! j) (idx3 K H W)) [0..<C]) [0..<B]"
proof -
  have lenB: "length t = B" using assms by (simp add: shape5_def)
  have lenC: "length (t ! b) = C" if "b < B" for b
    using shape5_nth [OF assms that] by (simp add: shape4_def)
  have row: "flatten3 (t ! b ! c) = map (\<lambda>(k, i, j). t ! b ! c ! k ! i ! j) (idx3 K H W)"
    if "b < B" "c < C" for b c
    using shape4_nth [OF shape5_nth [OF assms that(1)] that(2)] by (rule flatten3_idx)
  show ?thesis
    unfolding flatten_start2_def
    by (rule nth_equalityI) (auto simp: lenB lenC row intro!: nth_equalityI)
qed

lemma dense_loss_by_index:
  assumes "shape5 B C K H W uv_hat" and "shape5 B C K H W uv"
    and "reduction l = ''none''" and "\<not> isnan_all5 uv"
  shows "balanced_normalized_uv_loss uv_hat uv l = Inr (dense_reference B C K H W uv_hat uv l)"
  using assms(3,4)
  unfolding balanced_normalized_uv_loss_def dense_reference_def Let_def
    flatten_start2_idx [OF assms(1)] flatten_start2_idx [OF assms(2)]
    where3_def where1_def apply_loss3_def apply_loss1_def
  by (simp add: zip_map_same comp_def length_filter_Not_map case_prod_unfold cong: if_cong)

lemma dense_loss_all_nan:
  "isnan_all5 uv \<Longrightarrow> balanced_normalized_uv_loss uv_hat uv l = Inl AssertionError"
  by (simp add: balanced_normalized_uv_loss_def)

lemma shape2_dense_reference: "shape2 B C (dense_reference B C K H W uv_hat uv l)"
  by (simp add: dense_reference_def shape2_def shape1_def list_all_iff)

lemma not_isnan_any5_elem:
  assumes "shape5 B C K H W t" "\<not> isnan_any5 t" "b < B" "c < C" "k < K" "i < H" "j < W"
  shows "\<not> visnan (t ! b ! c ! k ! i ! j)"
  using assms(2) shape5_elem [OF assms(1,3-7)]
  unfolding isnan_any5_def list_ex_iff by blast

lemma isnan_all5_elem:
  assumes "shape5 B C K H W t" "isnan_all5 t" "b < B" "c < C" "k < K" "i < H" "j < W"
  shows "visnan (t ! b ! c ! k ! i ! j)"
  using assms(2) shape5_elem [OF assms(1,3-7)]
  unfolding isnan_all5_def list_all_iff by blast

lemma dense_reference_cong:
  assumes "\<And>b c k i j. b < B \<Longrightarrow> c < C \<Longrightarrow> k < K \<Longrightarrow> i < H \<Longrightarrow> j < W \<Longrightarrow>
             \<not> visnan (uv ! b ! c ! k ! i ! j) \<Longrightarrow> p ! b ! c ! k ! i ! j = q ! b ! c ! k ! i ! j"
  shows "dense_reference B C K H W p uv l = dense_reference B C K H W q uv l"
  unfolding dense_reference_def
  by (auto simp: set_idx3 assms intro!: arg_cong [where f = vsum] arg_cong2 [where f = vdiv])

lemma dense_reference_plain:
  assumes "\<And>b c k i j. b < B \<Longrightarrow> c < C \<Longrightarrow> k < K \<Longrightarrow> i < H \<Longrightarrow> j < W \<Longrightarrow>
             \<not> visnan (uv ! b ! c ! k ! i ! j)"
  shows "dense_reference B C K H W uv_hat uv l = plain_elementwise_loss B C K H W uv_hat uv l"
proof -
  have f: "filter (\<lambda>x. case x of (k, i, j) \<Rightarrow> \<not> visnan (uv ! b ! c ! k ! i ! j)) (idx3 K H W) = idx3 K H W"
    if "b < B" "c < C" for b c
    using assms that by (auto simp: set_idx3 intro!: filter_True)
  show ?thesis
    unfolding dense_reference_def plain_elementwise_loss_def
    by (auto simp: f length_idx3 set_idx3 assms intro!: arg_cong [where f = vsum] arg_cong2 [where f = vdiv])
qed

lemma where3_nothing_zeroed:
  assumes "shape5 B C K H W t" and "shape5 B C K H W uv"
    and "\<And>b c k i j. b < B \<Longrightarrow> c < C \<Longrightarrow> k < K \<Longrightarrow> i < H \<Longrightarrow> j < W \<Longrightarrow>
             \<not> visnan (uv ! b ! c ! k ! i ! j)"
  shows "where3 (map (map (map visnan)) (flatten_start2 uv)) (Fin 0) (flatten_start2 t) = flatten_start2 t"
  unfolding flatten_start2_idx [OF assms(1)] flatten_start2_idx [OF assms(2)] where3_def where1_def
  by (auto simp: zip_map_same comp_def set_idx3 assms(3))

section \<open>Lemmas on the total variation\<close>

lemma gradient_rows_tab:
  "gradient_rows (map (\<lambda>i. map (\<lambda>j. g i j) [0..<W]) [0..<H]) =
   map (\<lambda>i. map (\<lambda>j. diff1 (map (\<lambda>i'. g i' j) [0..<H]) i) [0..<W]) [0..<H]"
proof (cases "0 < H")
  case True
  then show ?thesis
    by (simp add: gradient_rows_def dim1_tab cong: map_cong)
next
  case False
  then show ?thesis by (simp add: gradient_rows_def)
qed

lemma gradient_cols_tab:
  "gradient_cols (map (\<lambda>i. map (\<lambda>j. g i j) [0..<W]) [0..<H]) =
   map (\<lambda>i. map (\<lambda>j. diff1 (map (\<lambda>j'. g i j') [0..<W]) j) [0..<W]) [0..<H]"
  by (simp add: gradient_cols_def comp_def)

lemma mean_dim0_tab:
  assumes "0 < K" "0 < H"
  shows "mean_dim0 (map (\<lambda>k. map (\<lambda>i. map (\<lambda>j. n k i j) [0..<W]) [0..<H]) [0..<K]) =
         map (\<lambda>i. map (\<lambda>j. vmean (map (\<lambda>k. n k i j) [0..<K])) [0..<W]) [0..<H]"
  using assms by (simp add: mean_dim0_def dim1_tab dim2_tab cong: map_cong)

lemma norm_stack_tab:
  "map (map (map (map (map vector_norm))))
     (stack_last (gradient34
        (map (\<lambda>b. map (\<lambda>c. map (\<lambda>k. map (\<lambda>i. map (\<lambda>j. f b c k i j) [0..<W]) [0..<H]) [0..<K]) [0..<C]) [0..<B]))) =
   map (\<lambda>b. map (\<lambda>c. map (\<lambda>k. map (\<lambda>i. map (\<lambda>j.
      vsqrt (vadd (sq (diff1 (map (\<lambda>i'. f b c k i' j) [0..<H]) i))
                  (sq (diff1 (map (\<lambda>j'. f b c k i j') [0..<W]) j))))
      [0..<W]) [0..<H]) [0..<K]) [0..<C]) [0..<B]"
  by (simp add: stack_last_def gradient34_def comp_def gradient_rows_tab gradient_cols_tab
      zip_map_same vector_norm_def sq_def vadd_zero_right)

lemma total_variation_tab:
  assumes "0 < B" "0 < C" "0 < K" "2 \<le> H" "2 \<le> W"
  shows "total_variation
           (map (\<lambda>b. map (\<lambda>c. map (\<lambda>k. map (\<lambda>i. map (\<lambda>j. f b c k i j) [0..<W]) [0..<H]) [0..<K]) [0..<C]) [0..<B])
           (map (\<lambda>b. map (\<lambda>c. map (\<lambda>i. map (\<lambda>j. m b c i j) [0..<W]) [0..<H]) [0..<C]) [0..<B])
         = Inr (map (\<lambda>b. map (\<lambda>c.
        vdiv (vsum [if m b c i j
                    then sq (vmean [vsqrt (vadd (sq (diff1 [f b c k i' j. i' \<leftarrow> [0..<H]] i))
                                                (sq (diff1 [f b c k i j'. j' \<leftarrow> [0..<W]] j))). k \<leftarrow> [0..<K]])
                    else Fin 0.
                    (i, j) \<leftarrow> idx2 H W])
             (Fin (real (length [x \<leftarrow> idx2 H W. case x of (i, j) \<Rightarrow> m b c i j] + 1))))
        [0..<C]) [0..<B])"
proof -
  have H0: "0 < H" and W0: "0 < W" using assms by auto
  have nHW: "\<not> (H < 2 \<or> W < 2)" using assms by auto
  show ?thesis
    unfolding total_variation_def Let_def norm_stack_tab
    by (simp add: dim1_tab dim2_tab dim3_tab dim4_tab assms H0 W0 nHW
        shape4_def shape3_def shape2_def shape1_def list_all_iff
        where4_def mean_dim0_tab zip_map_same comp_def concat_tab2 sq_def
        if_distrib [where f = "\<lambda>x. vmul x x"] if_distrib [where f = "\<lambda>x. vmul x _"]
        case_prod_unfold cong: if_cong)
qed

lemma total_variation_by_index:
  assumes uv: "shape5 B C K H W uv" and msk: "shape4 B C H W msk"
    and pos: "0 < B" "0 < C" "0 < K" "2 \<le> H" "2 \<le> W"
  shows "total_variation uv msk = Inr (tv_reference B C K H W uv msk)"
proof -
  have "total_variation uv msk =
        total_variation
          (map (\<lambda>b. map (\<lambda>c. map (\<lambda>k. map (\<lambda>i. map (\<lambda>j. uv ! b ! c ! k ! i ! j) [0..<W]) [0..<H]) [0..<K]) [0..<C]) [0..<B])
          (map (\<lambda>b. map (\<lambda>c. map (\<lambda>i. map (\<lambda>j. msk ! b ! c ! i ! j) [0..<W]) [0..<H]) [0..<C]) [0..<B])"
    using shape5_eta [OF uv] shape4_eta [OF msk] by simp
  also have "\<dots> = Inr (tv_reference B C K H W uv msk)"
    unfolding total_variation_tab [OF pos] tv_reference_def grad_norm_def by simp
  finally show ?thesis .
qed

lemma tv_reference_empty_mask:
  assumes "b < B" "c < C" and "\<forall>i<H. \<forall>j<W. \<not> msk ! b ! c ! i ! j"
  shows "tv_reference B C K H W uv msk ! b ! c = Fin 0"
proof -
  have in_idx: "i < H \<and> j < W" if "(i, j) \<in> set (idx2 H W)" for i j
    using that by (auto simp: idx2_def)
  have s: "vsum [if msk ! b ! c ! i ! j
                 then sq (vmean [grad_norm H W (uv ! b ! c ! k) i j. k \<leftarrow> [0..<K]])
                 else Fin 0. (i, j) \<leftarrow> idx2 H W] = Fin 0"
    by (rule vsum_zeros) (use assms(3) in_idx in auto)
  have f: "[x \<leftarrow> idx2 H W. case x of (i, j) \<Rightarrow> msk ! b ! c ! i ! j] = []"
    using assms(3) in_idx by (auto simp: filter_empty_conv)
  have "tv_reference B C K H W uv msk ! b ! c =
        vdiv (vsum [if msk ! b ! c ! i ! j
                    then sq (vmean [grad_norm H W (uv ! b ! c ! k) i j. k \<leftarrow> [0..<K]])
                    else Fin 0. (i, j) \<leftarrow> idx2 H W])
             (Fin (real (length [x \<leftarrow> idx2 H W. case x of (i, j) \<Rightarrow> msk ! b ! c ! i ! j] + 1)))"
    using assms(1,2) by (simp add: tv_reference_def cong: if_cong)
  also have "\<dots> = Fin 0"
    unfolding s f by simp
  finally show ?thesis .
qed

section \<open>Lemmas on the sparse landmark loss\<close>

lemma length_cumsum_from: "length (cumsum_from acc xs) = length xs"
  by (induction xs arbitrary: acc) auto

lemma cumsum_from_nth:
  "i < length xs \<Longrightarrow> cumsum_from acc xs ! i = acc + sum_list (take (Suc i) xs)"
proof (induction xs arbitrary: acc i)
  case Nil
  then show ?case by simp
next
  case (Cons x xs)
  then show ?case by (cases i) auto
qed

lemma anatomy_idx_length: "length (cumsum (0 # ns)) = Suc (length ns)"
  by (simp add: cumsum_def length_cumsum_from)

lemma anatomy_idx_nth: "c \<le> length ns \<Longrightarrow> cumsum (0 # ns) ! c = sum_list (take c ns)"
  by (cases c) (simp_all add: cumsum_def cumsum_from_nth)

lemma anatomy_idx_Suc:
  "c < length ns \<Longrightarrow> cumsum (0 # ns) ! Suc c = cumsum (0 # ns) ! c + ns ! c"
  by (simp add: anatomy_idx_nth take_Suc_conv_app_nth)

lemma sum_list_take_le: "sum_list (take c (ns :: nat list)) \<le> sum_list ns"
proof -
  have "sum_list ns = sum_list (take c ns) + sum_list (drop c ns)"
    by (metis append_take_drop_id sum_list_append)
  then show ?thesis by simp
qed

lemma class_loop_append:
  "class_loop body (xs @ ys) loss =
     (case class_loop body xs loss of Inl e \<Rightarrow> Inl e | Inr loss' \<Rightarrow> class_loop body ys loss')"
  by (induction xs arbitrary: loss) (auto split: sum.splits)

lemma class_loop_no_assertion:
  assumes "\<And>c loss. body c loss \<noteq> Inl AssertionError"
  shows "class_loop body cs loss \<noteq> Inl AssertionError"
proof (induction cs arbitrary: loss)
  case Nil
  then show ?case by simp
next
  case (Cons c cs)
  then show ?case using assms [of c loss] by (auto split: sum.splits)
qed

lemma class_step_no_assertion:
  "class_step sample uv norm_lm anatomy_idx gt l c loss \<noteq> Inl AssertionError"
  by (simp add: class_step_def Let_def)

lemma landmark_assertion_iff:
  "landmark_uv_loss sample uv landmarks gt l = Inl AssertionError
   \<longleftrightarrow> reduction l \<noteq> ''none'' \<or> isnan_any5 uv"
  using class_loop_no_assertion [OF class_step_no_assertion]
  by (auto simp: landmark_uv_loss_def Let_def)

lemma take_drop_tab:
  "s + n \<le> length row \<Longrightarrow> take n (drop s row) = map (\<lambda>i. row ! (s + i)) [0..<n]"
  by (auto intro!: nth_equalityI)

lemma zip_replicate_tab:
  "zip (map f [0..<n]) (replicate n y) = map (\<lambda>i. (f i, y)) [0..<n]"
  by (auto intro!: nth_equalityI)

lemma all_outside_iff:
  "all_outside norm_lm gt B c \<longleftrightarrow>
   (\<forall>b<B. \<forall>n<length (gt ! c). outside (norm_lm ! b ! (sum_list (take c (map length gt)) + n)))"
  by (auto simp: all_outside_def list_all_iff class_point_def)

lemma class_step_eq:
  assumes c: "c < length gt" and len: "length norm_lm = length uv"
    and rows: "\<forall>row\<in>set norm_lm. sum_list (map length gt) \<le> length row"
  shows "class_step sample uv norm_lm (cumsum (0 # map length gt)) gt l c loss =
     (if all_outside norm_lm gt (length uv) c
      then Inr loss
      else Inr (set_column c (map (class_value sample uv norm_lm gt l c) [0..<length uv]) loss))"
proof -
  define ns where "ns = map length gt"
  define start where "start = sum_list (take c ns)"
  define N where "N = length (gt ! c)"
  define B where "B = length uv"
  have c': "c < length ns" using c by (simp add: ns_def)
  have idx_c: "cumsum (0 # ns) ! c = start"
    using c' by (simp add: anatomy_idx_nth start_def)
  have nsc: "ns ! c = N"
    using c by (simp add: ns_def N_def)
  have idx_Sc: "cumsum (0 # ns) ! Suc c = start + N"
    using c' by (simp add: anatomy_idx_Suc idx_c nsc)
  have "start + N = sum_list (take (Suc c) ns)"
    using c' by (simp add: take_Suc_conv_app_nth start_def nsc)
  then have bound: "start + N \<le> sum_list ns"
    using sum_list_take_le [of "Suc c" ns] by simp
  have row_len: "start + N \<le> length (norm_lm ! b)" if "b < B" for b
    using rows bound that len by (auto simp: ns_def B_def dest!: bspec [where x = "norm_lm ! b"])
  have sp: "map (\<lambda>row. take N (drop start row)) norm_lm =
            map (\<lambda>b. map (\<lambda>n. norm_lm ! b ! (start + n)) [0..<N]) [0..<B]"
    using row_len len by (auto simp: B_def take_drop_tab intro!: nth_equalityI)
  have zip_uv: "zip uv (map (\<lambda>b. f b) [0..<B]) = map (\<lambda>b. (uv ! b, f b)) [0..<B]" for f :: "nat \<Rightarrow> 'b"
    by (auto simp: B_def intro!: nth_equalityI)
  have zip_gtc: "zip (map (\<lambda>n. f n) [0..<N]) (gt ! c) = map (\<lambda>n. (f n, gt ! c ! n)) [0..<N]"
    for f :: "nat \<Rightarrow> 'b"
    by (auto simp: N_def intro!: nth_equalityI)
  have not_short: "\<not> length (cumsum (0 # ns)) \<le> Suc c"
    using c' by (simp add: anatomy_idx_length)
  show ?thesis
    unfolding class_step_def Let_def all_outside_iff class_value_def class_point_def
      ns_def [symmetric] start_def [symmetric] N_def [symmetric] B_def [symmetric]
    apply (simp only: Suc_eq_plus1 [symmetric] not_short if_False idx_c idx_Sc add_diff_cancel_left' sp)
    apply (simp add: list_all_tab zip_uv zip_gtc zip_replicate_tab zero_rows_def zip_map_same
        comp_def list_all2_conv_all_nth N_def [symmetric] cong: map_cong)
    apply blast
    done
qed

lemma set_column_tab:
  assumes "k < C"
  shows "set_column k (map v [0..<B]) (map (\<lambda>b. map (\<lambda>c. f b c) [0..<C]) [0..<B]) =
         map (\<lambda>b. map (\<lambda>c. if c = k then v b else f b c) [0..<C]) [0..<B]"
  using assms
  by (auto simp: set_column_def zip_map_same nth_list_update intro!: nth_equalityI)

lemma class_loop_prefix:
  assumes C: "dim1 uv \<le> length gt" and len: "length norm_lm = length uv"
    and rows: "\<forall>row\<in>set norm_lm. sum_list (map length gt) \<le> length row"
    and k: "k \<le> dim1 uv"
  shows "class_loop (class_step sample uv norm_lm (cumsum (0 # map length gt)) gt l) [0..<k]
           (replicate (length uv) (replicate (dim1 uv) (Fin 0)))
         = Inr (sparse_table sample uv norm_lm gt l k)"
  using k
proof (induction k)
  case 0
  show ?case
    by (auto simp: sparse_table_def intro!: nth_equalityI)
next
  case (Suc k)
  then have kC: "k < dim1 uv" and kgt: "k < length gt" using C by auto
  have IH: "class_loop (class_step sample uv norm_lm (cumsum (0 # map length gt)) gt l) [0..<k]
           (replicate (length uv) (replicate (dim1 uv) (Fin 0)))
         = Inr (sparse_table sample uv norm_lm gt l k)"
    using Suc by simp
  have step: "class_step sample uv norm_lm (cumsum (0 # map length gt)) gt l k
                (sparse_table sample uv norm_lm gt l k)
              = Inr (sparse_table sample uv norm_lm gt l (Suc k))"
  proof (cases "all_outside norm_lm gt (length uv) k")
    case True
    have "sparse_table sample uv norm_lm gt l (Suc k) = sparse_table sample uv norm_lm gt l k"
      unfolding sparse_table_def using True by (auto simp: less_Suc_eq intro!: nth_equalityI)
    then show ?thesis
      using True by (simp add: class_step_eq [OF kgt len rows])
  next
    case False
    have "set_column k (map (class_value sample uv norm_lm gt l k) [0..<length uv])
            (sparse_table sample uv norm_lm gt l k)
          = sparse_table sample uv norm_lm gt l (Suc k)"
      unfolding sparse_table_def set_column_tab [OF kC]
      using False by (auto simp: less_Suc_eq intro!: nth_equalityI)
    then show ?thesis
      by (simp only: class_step_eq [OF kgt len rows] False if_False)
  qed
  show ?case
    by (simp add: class_loop_append IH step)
qed

lemma length_normalize:
  "length (normalize_pixel_coordinates lm H W) = length lm"
  by (simp add: normalize_pixel_coordinates_def Let_def)

lemma set_normalize_lengths:
  "row \<in> set (normalize_pixel_coordinates lm H W) \<Longrightarrow> \<exists>r \<in> set lm. length row = length r"
  by (auto simp: normalize_pixel_coordinates_def Let_def)

lemma landmark_uv_loss_table:
  assumes red: "reduction l = ''none''" and nonan: "\<not> isnan_any5 uv"
    and C: "dim1 uv \<le> length gt" and len: "length landmarks = length uv"
    and rows: "\<forall>row\<in>set landmarks. sum_list (map length gt) \<le> length row"
  shows "landmark_uv_loss sample uv landmarks gt l =
         Inr (sparse_table sample uv (normalize_pixel_coordinates landmarks (dim3 uv) (dim4 uv)) gt l (dim1 uv))"
proof -
  let ?nl = "normalize_pixel_coordinates landmarks (dim3 uv) (dim4 uv)"
  have len': "length ?nl = length uv" using len by (simp add: length_normalize)
  have rows': "\<forall>row\<in>set ?nl. sum_list (map length gt) \<le> length row"
    using rows set_normalize_lengths by fastforce
  show ?thesis
    unfolding landmark_uv_loss_def Let_def
    using red nonan class_loop_prefix [OF C len' rows' le_refl, of sample l]
    by simp
qed

lemma class_value_mean:
  assumes gtK: "\<forall>n<length (gt ! c). length (gt ! c ! n) = K"
    and sK: "\<forall>n<length (gt ! c). length (sample (uv ! b ! c) (class_point norm_lm gt c b n)) = K"
  shows "class_value sample uv norm_lm gt l c b = sparse_reference sample uv norm_lm gt l K c b"
proof -
  define N where "N = length (gt ! c)"
  define pt where "pt = class_point norm_lm gt c b"
  have row: "apply_loss1 l
          (if outside (pt n) then map (\<lambda>_. Fin 0) (sample (uv ! b ! c) (pt n))
           else sample (uv ! b ! c) (pt n))
          (if outside (pt n) then map (\<lambda>_. Fin 0) (gt ! c ! n) else gt ! c ! n)
        = map (\<lambda>k. elem l (if outside (pt n) then Fin 0 else sample (uv ! b ! c) (pt n) ! k)
                            (if outside (pt n) then Fin 0 else gt ! c ! n ! k)) [0..<K]"
    if "n < N" for n
    using gtK sK that unfolding apply_loss1_def pt_def N_def
    by (auto intro!: nth_equalityI)
  have len: "length (concat (map (\<lambda>n. map (\<lambda>k. h n k) [0..<K]) [0..<N])) = N * K" for h :: "nat \<Rightarrow> nat \<Rightarrow> val"
    by (simp add: length_concat comp_def sum_list_triv)
  have rows: "map (\<lambda>n. apply_loss1 l
          (if outside (pt n) then map (\<lambda>_. Fin 0) (sample (uv ! b ! c) (pt n))
           else sample (uv ! b ! c) (pt n))
          (if outside (pt n) then map (\<lambda>_. Fin 0) (gt ! c ! n) else gt ! c ! n)) [0..<N]
        = map (\<lambda>n. map (\<lambda>k. elem l (if outside (pt n) then Fin 0 else sample (uv ! b ! c) (pt n) ! k)
                            (if outside (pt n) then Fin 0 else gt ! c ! n ! k)) [0..<K]) [0..<N]"
    by (rule map_cong [OF refl]) (simp add: row)
  show ?thesis
    unfolding class_value_def sparse_reference_def masked_landmark_losses_def vmean_def
      pt_def [symmetric] N_def [symmetric] rows
    by (simp add: len)
qed

lemma sparse_table_nth:
  assumes "b < length uv" "c < dim1 uv"
  shows "sparse_table sample uv norm_lm gt l (dim1 uv) ! b ! c =
         (if all_outside norm_lm gt (length uv) c then Fin 0
          else class_value sample uv norm_lm gt l c b)"
  using assms by (simp add: sparse_table_def)

section \<open>Lemmas on the heatmap\<close>

lemma take_drop_concat_tab:
  "i < H \<Longrightarrow> take W (drop (i * W) (concat (map (\<lambda>i. map (g i) [0..<W]) [0..<H]))) = map (g i) [0..<W]"
proof (induction H arbitrary: i)
  case 0
  then show ?case by simp
next
  case (Suc H)
  have len: "length (concat (map (\<lambda>i. map (g i) [0..<W]) [0..<H])) = H * W"
    by (simp add: length_concat comp_def sum_list_triv)
  show ?case
  proof (cases "i < H")
    case True
    have "i * W + W \<le> H * W"
      using True by (metis Suc_leI mult_Suc mult_le_mono1 add.commute)
    then show ?thesis
      using Suc.IH [OF True] len by simp
  next
    case False
    then have "i = H" using Suc.prems by simp
    then show ?thesis using len by simp
  qed
qed

lemma view2_concat_tab:
  "view2 H W (map f (concat (map (\<lambda>i. map (g i) [0..<W]) [0..<H]))) =
   map (\<lambda>i. map (\<lambda>j. f (g i j)) [0..<W]) [0..<H]"
proof -
  have "map f (concat (map (\<lambda>i. map (g i) [0..<W]) [0..<H])) =
        concat (map (\<lambda>i. map (\<lambda>j. f (g i j)) [0..<W]) [0..<H])"
    by (simp add: map_concat comp_def)
  then show ?thesis
    by (simp add: view2_def take_drop_concat_tab cong: map_cong)
qed

lemma heatmap_value:
  assumes "std_pixel \<noteq> 0" "b < length lm" "n < length (lm ! b)" "lm ! b ! n = (Fin lx, Fin ly)"
    "i < H" "j < W"
  shows "heatmap alpha std_pixel lm H W ! b ! n ! i ! j =
         Fin (of_int alpha * exp (- ((real j - lx)\<^sup>2 + (real i - ly)\<^sup>2) / (2 * (of_int std_pixel)\<^sup>2)))"
  using assms
  by (simp add: heatmap_def Let_def meshgrid_xy_def view2_concat_tab power2_eq_square)

section \<open>Evaluation of the examples\<close>

lemma upt_2: "[0..<2] = [0, 1]"
  by (simp add: upt_rec)

lemma upt_3: "[0..<3] = [0, 1, 2]"
  by (simp add: upt_rec)

lemmas shape_defs = shape5_def shape4_def shape3_def shape2_def shape1_def

lemmas dim_defs = dim1_def dim2_def dim3_def dim4_def

lemmas ex_defs = ex_uv_def ex_uv_hat_def ex_uv_hat2_def ex_uv_full_def ex_uv_hat_full_def ex_uv_allnan_def
  zeros33_def ramp33_def ex_tv_uv_def none33_def ex_mask_def
  ex_pred_def ex_pred_nan_def ex_lm_mixed_def ex_lm_out_def ex_gt_def ex_gt_nan_def

section \<open>Properties of the dense UV regression loss\<close>

text \<open>
  The second assertion: a ground truth of NaN markers only is refused, whatever the
  prediction and the base loss are.
\<close>

lemma dense_loss_all_nan_example:
  "balanced_normalized_uv_loss ex_uv_hat ex_uv_allnan MSELoss = Inl AssertionError"
  by (rule dense_loss_all_nan) (simp add: ex_defs isnan_all5_def)

text \<open>
  C1. For predicted and ground-truth maps of one shape \<open>(B, C, K, H, W)\<close> (\<open>K = 2\<close> for UV
  maps) and an elementwise base loss with reduction \<^verbatim>\<open>'none'\<close>, the dense UV regression
  loss is the reference computation: where the ground truth is NaN both operands are set
  to zero, the elementwise loss is applied and summed over the \<open>K * H * W\<close> positions of a
  (batch, class) row, and the sum is divided by the number of valid positions plus one;
  the result has shape \<open>(B, C)\<close>. The function asserts that the ground truth is not NaN
  everywhere, and the statement is about the calls that pass this assertion.
\<close>

theorem dense_uv_loss_reference:
  assumes "shape5 B C K H W uv_hat" and "shape5 B C K H W uv"
    and "reduction l = ''none''" and "\<not> isnan_all5 uv"
  shows "balanced_normalized_uv_loss uv_hat uv l = Inr (dense_reference B C K H W uv_hat uv l)
         \<and> shape2 B C (dense_reference B C K H W uv_hat uv l)"
  using dense_loss_by_index [OF assms] shape2_dense_reference [of B C K H W uv_hat uv l] by simp

theorem dense_uv_loss_reference_witness:
  "balanced_normalized_uv_loss ex_uv_hat ex_uv MSELoss
     = Inr (dense_reference 1 1 2 2 2 ex_uv_hat ex_uv MSELoss)
   \<and> shape2 1 1 (dense_reference 1 1 2 2 2 ex_uv_hat ex_uv MSELoss)
   \<and> dense_reference 1 1 2 2 2 ex_uv_hat ex_uv MSELoss = [[Fin (3 / 7)]]"
proof -
  have h1: "shape5 1 1 2 2 2 ex_uv_hat" by (simp add: ex_defs shape_defs)
  have h2: "shape5 1 1 2 2 2 ex_uv" by (simp add: ex_defs shape_defs)
  have h3: "reduction MSELoss = ''none''" by (simp add: MSELoss_def)
  have h4: "\<not> isnan_all5 ex_uv" by (simp add: ex_defs isnan_all5_def)
  have v: "dense_reference 1 1 2 2 2 ex_uv_hat ex_uv MSELoss = [[Fin (3 / 7)]]"
    by (simp add: dense_reference_def idx3_def upt_2 ex_defs MSELoss_def)
  show ?thesis
    using dense_uv_loss_reference [OF h1 h2 h3 h4] v by simp
qed

text \<open>
  C8. When the ground truth contains no NaN marker (and the maps are not empty), the
  masking step changes neither operand, and the dense loss is the elementwise loss of the
  unmodified maps, summed over each row and divided by the number of elements of the row
  plus one.
\<close>

theorem dense_loss_without_markers:
  assumes "shape5 B C K H W uv_hat" and "shape5 B C K H W uv"
    and "0 < B" "0 < C" "0 < K" "0 < H" "0 < W"
    and "reduction l = ''none''" and "\<not> isnan_any5 uv"
  shows "balanced_normalized_uv_loss uv_hat uv l = Inr (plain_elementwise_loss B C K H W uv_hat uv l)
         \<and> where3 (map (map (map visnan)) (flatten_start2 uv)) (Fin 0) (flatten_start2 uv_hat)
             = flatten_start2 uv_hat
         \<and> where3 (map (map (map visnan)) (flatten_start2 uv)) (Fin 0) (flatten_start2 uv)
             = flatten_start2 uv"
proof -
  have valid: "\<not> visnan (uv ! b ! c ! k ! i ! j)" if "b < B" "c < C" "k < K" "i < H" "j < W" for b c k i j
    using not_isnan_any5_elem [OF assms(2,9) that] .
  have "\<not> visnan (uv ! 0 ! 0 ! 0 ! 0 ! 0)" using valid assms(3-7) by blast
  then have "\<not> isnan_all5 uv" using isnan_all5_elem [OF assms(2) _ assms(3-7)] by blast
  then have "balanced_normalized_uv_loss uv_hat uv l = Inr (dense_reference B C K H W uv_hat uv l)"
    using assms(1,2,8) by (simp add: dense_loss_by_index)
  moreover have "dense_reference B C K H W uv_hat uv l = plain_elementwise_loss B C K H W uv_hat uv l"
    by (rule dense_reference_plain) (rule valid)
  moreover note where3_nothing_zeroed [OF assms(1,2) valid] where3_nothing_zeroed [OF assms(2,2) valid]
  ultimately show ?thesis by simp
qed

theorem dense_loss_without_markers_witness:
  "balanced_normalized_uv_loss ex_uv_hat_full ex_uv_full MSELoss
     = Inr (plain_elementwise_loss 1 1 2 2 2 ex_uv_hat_full ex_uv_full MSELoss)
   \<and> plain_elementwise_loss 1 1 2 2 2 ex_uv_hat_full ex_uv_full MSELoss = [[Fin (7 / 9)]]"
proof -
  have h1: "shape5 1 1 2 2 2 ex_uv_hat_full" by (simp add: ex_defs shape_defs)
  have h2: "shape5 1 1 2 2 2 ex_uv_full" by (simp add: ex_defs shape_defs)
  have h3: "reduction MSELoss = ''none''" by (simp add: MSELoss_def)
  have h4: "\<not> isnan_any5 ex_uv_full" by (simp add: ex_defs isnan_any5_def)
  have v: "plain_elementwise_loss 1 1 2 2 2 ex_uv_hat_full ex_uv_full MSELoss = [[Fin (7 / 9)]]"
    by (simp add: plain_elementwise_loss_def idx3_def upt_2 ex_defs MSELoss_def)
  show ?thesis
    using dense_loss_without_markers [OF h1 h2 _ _ _ _ _ h3 h4] v by simp
qed

text \<open>
  C10. Two predictions that agree wherever the ground truth is not NaN give the same
  result, an error or a loss tensor: the values of a prediction at the positions of the
  NaN markers, NaN included, have no influence on the dense loss.
\<close>

theorem dense_loss_ignores_masked_predictions:
  assumes "shape5 B C K H W uv_hat1" and "shape5 B C K H W uv_hat2" and "shape5 B C K H W uv"
    and "\<forall>b<B. \<forall>c<C. \<forall>k<K. \<forall>i<H. \<forall>j<W.
           \<not> visnan (uv ! b ! c ! k ! i ! j) \<longrightarrow>
           uv_hat1 ! b ! c ! k ! i ! j = uv_hat2 ! b ! c ! k ! i ! j"
  shows "balanced_normalized_uv_loss uv_hat1 uv l = balanced_normalized_uv_loss uv_hat2 uv l"
proof (cases "reduction l = ''none'' \<and> \<not> isnan_all5 uv")
  case True
  then have "balanced_normalized_uv_loss uv_hat1 uv l = Inr (dense_reference B C K H W uv_hat1 uv l)"
    and "balanced_normalized_uv_loss uv_hat2 uv l = Inr (dense_reference B C K H W uv_hat2 uv l)"
    using assms(1-3) by (simp_all add: dense_loss_by_index)
  moreover have "dense_reference B C K H W uv_hat1 uv l = dense_reference B C K H W uv_hat2 uv l"
    by (rule dense_reference_cong) (use assms(4) in blast)
  ultimately show ?thesis by simp
next
  case False
  then show ?thesis by (auto simp: balanced_normalized_uv_loss_def)
qed

theorem dense_loss_ignores_masked_predictions_witness:
  "ex_uv_hat \<noteq> ex_uv_hat2
   \<and> balanced_normalized_uv_loss ex_uv_hat ex_uv MSELoss
       = balanced_normalized_uv_loss ex_uv_hat2 ex_uv MSELoss"
proof -
  have h1: "shape5 1 1 2 2 2 ex_uv_hat" by (simp add: ex_defs shape_defs)
  have h2: "shape5 1 1 2 2 2 ex_uv_hat2" by (simp add: ex_defs shape_defs)
  have h3: "shape5 1 1 2 2 2 ex_uv" by (simp add: ex_defs shape_defs)
  have h4: "\<forall>b<1. \<forall>c<1. \<forall>k<2. \<forall>i<2. \<forall>j<2.
           \<not> visnan (ex_uv ! b ! c ! k ! i ! j) \<longrightarrow>
           ex_uv_hat ! b ! c ! k ! i ! j = ex_uv_hat2 ! b ! c ! k ! i ! j"
    by (simp add: ex_defs less_Suc_eq numeral_2_eq_2)
  have d: "ex_uv_hat \<noteq> ex_uv_hat2" by (simp add: ex_defs)
  show ?thesis
    using dense_loss_ignores_masked_predictions [OF h1 h2 h3 h4, of MSELoss] d by simp
qed

section \<open>Properties of the total variation\<close>

text \<open>
  C4. For a predicted map of shape \<open>(B, C, K, H, W)\<close> and a boolean mask of shape
  \<open>(B, C, H, W)\<close>, the total-variation loss is the reference computation: the first-order
  differences along both spatial axes, their Euclidean norm, the mean of the norm over the
  UV axis, squared, zero outside the mask, summed over the pixels and divided by the
  number of masked pixels plus one. For a class whose mask has no true pixel the result is
  exactly zero. The gradient needs at least two rows and two columns, and the shape is
  read off a map without an empty axis.
\<close>

theorem total_variation_reference:
  assumes "shape5 B C K H W uv" and "shape4 B C H W msk"
    and "0 < B" "0 < C" "0 < K" "2 \<le> H" "2 \<le> W"
  shows "total_variation uv msk = Inr (tv_reference B C K H W uv msk)
         \<and> (\<forall>b<B. \<forall>c<C. (\<forall>i<H. \<forall>j<W. \<not> msk ! b ! c ! i ! j) \<longrightarrow>
                tv_reference B C K H W uv msk ! b ! c = Fin 0)"
  using total_variation_by_index [OF assms] tv_reference_empty_mask [of _ B _ C H W msk K uv]
  by simp

theorem total_variation_reference_witness:
  "total_variation ex_tv_uv ex_mask = Inr (tv_reference 1 2 2 3 3 ex_tv_uv ex_mask)
   \<and> tv_reference 1 2 2 3 3 ex_tv_uv ex_mask ! 0 ! 1 = Fin 0
   \<and> tv_reference 1 2 2 3 3 ex_tv_uv ex_mask ! 0 ! 0 = Fin (25 / 8)"
proof -
  have h1: "shape5 1 2 2 3 3 ex_tv_uv" by (simp add: ex_defs shape_defs)
  have h2: "shape4 1 2 3 3 ex_mask" by (simp add: ex_defs shape_defs)
  have e: "\<forall>i<3. \<forall>j<3. \<not> ex_mask ! 0 ! 1 ! i ! j"
    by (simp add: ex_defs less_Suc_eq numeral_3_eq_3)
  have s: "sqrt 25 = 5" using real_sqrt_abs [of 5] by simp
  have v: "tv_reference 1 2 2 3 3 ex_tv_uv ex_mask ! 0 ! 0 = Fin (25 / 8)"
    by (simp add: tv_reference_def idx2_def upt_2 upt_3 ex_defs grad_norm_def diff1_def sq_def
        vmean_def s)
  from total_variation_reference [OF h1 h2, simplified]
  have "total_variation ex_tv_uv ex_mask = Inr (tv_reference 1 2 2 3 3 ex_tv_uv ex_mask)"
    and "\<forall>c<2. (\<forall>i<3. \<forall>j<3. \<not> ex_mask ! 0 ! c ! i ! j) \<longrightarrow>
                tv_reference 1 2 2 3 3 ex_tv_uv ex_mask ! 0 ! c = Fin 0"
    by simp_all
  with e v show ?thesis by simp
qed

section \<open>Properties of the sparse landmark loss\<close>

text \<open>
  C5. In a call that passes both assertions, on tensors of consistent shapes (one list of
  landmarks for each batch element, long enough for the landmark counts of the classes,
  and ground-truth values for every class channel), a class all of whose landmarks are
  out of the normalized range in every batch element is skipped: its step of the loop
  returns the loss tensor unchanged and raises nothing, the call returns a loss tensor,
  and the entry of the class is exactly zero for every batch element.
\<close>

theorem sparse_loss_skips_absent_class:
  assumes "reduction l = ''none''" and "\<not> isnan_any5 uv"
    and "dim1 uv \<le> length gt" and "length landmarks = length uv"
    and "\<forall>row\<in>set landmarks. sum_list (map length gt) \<le> length row"
    and "c < dim1 uv"
    and "all_outside (normalize_pixel_coordinates landmarks (dim3 uv) (dim4 uv)) gt (length uv) c"
  shows "(\<exists>loss. landmark_uv_loss sample uv landmarks gt l = Inr loss
                \<and> (\<forall>b<length uv. loss ! b ! c = Fin 0))
         \<and> (\<forall>loss. class_step sample uv (normalize_pixel_coordinates landmarks (dim3 uv) (dim4 uv))
                      (cumsum (0 # map length gt)) gt l c loss = Inr loss)"
proof -
  let ?nl = "normalize_pixel_coordinates landmarks (dim3 uv) (dim4 uv)"
  have len': "length ?nl = length uv" using assms(4) by (simp add: length_normalize)
  have rows': "\<forall>row\<in>set ?nl. sum_list (map length gt) \<le> length row"
    using assms(5) set_normalize_lengths by fastforce
  have cgt: "c < length gt" using assms(3,6) by simp
  have "landmark_uv_loss sample uv landmarks gt l = Inr (sparse_table sample uv ?nl gt l (dim1 uv))"
    by (rule landmark_uv_loss_table [OF assms(1-5)])
  moreover have "sparse_table sample uv ?nl gt l (dim1 uv) ! b ! c = Fin 0" if "b < length uv" for b
    using sparse_table_nth [OF that assms(6)] assms(7) by simp
  moreover have "class_step sample uv ?nl (cumsum (0 # map length gt)) gt l c loss = Inr loss" for loss
    using class_step_eq [OF cgt len' rows'] assms(7) by simp
  ultimately show ?thesis by simp
qed

theorem sparse_loss_skips_absent_class_witness:
  "all_outside (normalize_pixel_coordinates ex_lm_out 3 3) ex_gt 1 0
   \<and> landmark_uv_loss bilinear ex_pred ex_lm_out ex_gt MSELoss = Inr [[Fin 0]]"
proof -
  have d: "dim1 ex_pred = 1" "dim3 ex_pred = 3" "dim4 ex_pred = 3" "length ex_pred = 1"
    by (simp_all add: ex_defs dim_defs)
  have h1: "reduction MSELoss = ''none''" by (simp add: MSELoss_def)
  have h2: "\<not> isnan_any5 ex_pred" by (simp add: ex_defs isnan_any5_def)
  have h3: "dim1 ex_pred \<le> length ex_gt" by (simp add: ex_defs dim_defs)
  have h4: "length ex_lm_out = length ex_pred" by (simp add: ex_defs)
  have h5: "\<forall>row\<in>set ex_lm_out. sum_list (map length ex_gt) \<le> length row" by (simp add: ex_defs)
  have h6: "0 < dim1 ex_pred" by (simp add: d)
  have h7: "all_outside (normalize_pixel_coordinates ex_lm_out 3 3) ex_gt 1 0"
    by (simp add: all_outside_def class_point_def normalize_pixel_coordinates_def clamp_min_def
        outside_def upt_2 ex_defs Let_def)
  have v: "landmark_uv_loss bilinear ex_pred ex_lm_out ex_gt MSELoss = Inr [[Fin 0]]"
    by (simp add: landmark_uv_loss_def class_step_def isnan_any5_def MSELoss_def dim_defs
        normalize_pixel_coordinates_def clamp_min_def cumsum_def outside_def ex_defs Let_def)
  from sparse_loss_skips_absent_class [OF h1 h2 h3 h4 h5 h6, of bilinear] h7
  have "\<exists>loss. landmark_uv_loss bilinear ex_pred ex_lm_out ex_gt MSELoss = Inr loss
               \<and> (\<forall>b<length ex_pred. loss ! b ! 0 = Fin 0)"
    by (simp add: d)
  with h7 v show ?thesis by simp
qed

text \<open>
  C3, as the code has it. In a call that passes both assertions, on tensors of consistent
  shapes with \<open>K\<close> UV values for each landmark, a class with a landmark in range in some
  batch element gets, for each batch element, the mean of the elementwise losses over all
  \<open>N_c * K\<close> elements of the class, where at a landmark out of range both operands are
  zero: the divisor is the number of all elements, not the number of valid elements plus
  one.
\<close>

theorem sparse_loss_mean_over_all_elements:
  assumes "reduction l = ''none''" and "\<not> isnan_any5 uv"
    and "dim1 uv \<le> length gt" and "length landmarks = length uv"
    and "\<forall>row\<in>set landmarks. sum_list (map length gt) \<le> length row"
    and "c < dim1 uv" and "b < length uv"
    and "\<not> all_outside (normalize_pixel_coordinates landmarks (dim3 uv) (dim4 uv)) gt (length uv) c"
    and "\<forall>n<length (gt ! c). length (gt ! c ! n) = K"
    and "\<forall>n<length (gt ! c). length (sample (uv ! b ! c)
           (class_point (normalize_pixel_coordinates landmarks (dim3 uv) (dim4 uv)) gt c b n)) = K"
  shows "\<exists>loss. landmark_uv_loss sample uv landmarks gt l = Inr loss
               \<and> loss ! b ! c =
                   sparse_reference sample uv
                     (normalize_pixel_coordinates landmarks (dim3 uv) (dim4 uv)) gt l K c b"
proof -
  let ?nl = "normalize_pixel_coordinates landmarks (dim3 uv) (dim4 uv)"
  have "landmark_uv_loss sample uv landmarks gt l = Inr (sparse_table sample uv ?nl gt l (dim1 uv))"
    by (rule landmark_uv_loss_table [OF assms(1-5)])
  moreover have "sparse_table sample uv ?nl gt l (dim1 uv) ! b ! c = class_value sample uv ?nl gt l c b"
    using sparse_table_nth [OF assms(7,6)] assms(8) by simp
  moreover have "class_value sample uv ?nl gt l c b = sparse_reference sample uv ?nl gt l K c b"
    using assms(9,10) by (rule class_value_mean [where norm_lm = "?nl" and K = K])
  ultimately show ?thesis by simp
qed

theorem sparse_loss_mean_over_all_elements_witness:
  "sparse_reference bilinear ex_pred (normalize_pixel_coordinates ex_lm_mixed 3 3) ex_gt MSELoss 2 0 0
     = Fin (1 / 2)
   \<and> (\<exists>loss. landmark_uv_loss bilinear ex_pred ex_lm_mixed ex_gt MSELoss = Inr loss
             \<and> loss ! 0 ! 0 = Fin (1 / 2))"
proof -
  have d: "dim1 ex_pred = 1" "dim3 ex_pred = 3" "dim4 ex_pred = 3" "length ex_pred = 1"
    by (simp_all add: ex_defs dim_defs)
  have h1: "reduction MSELoss = ''none''" by (simp add: MSELoss_def)
  have h2: "\<not> isnan_any5 ex_pred" by (simp add: ex_defs isnan_any5_def)
  have h3: "dim1 ex_pred \<le> length ex_gt" by (simp add: ex_defs dim_defs)
  have h4: "length ex_lm_mixed = length ex_pred" by (simp add: ex_defs)
  have h5: "\<forall>row\<in>set ex_lm_mixed. sum_list (map length ex_gt) \<le> length row" by (simp add: ex_defs)
  have h6: "0 < dim1 ex_pred" and h7: "0 < length ex_pred" by (simp_all add: d)
  have h8: "\<not> all_outside (normalize_pixel_coordinates ex_lm_mixed (dim3 ex_pred) (dim4 ex_pred)) ex_gt
              (length ex_pred) 0"
    unfolding d
    by (simp add: all_outside_def class_point_def normalize_pixel_coordinates_def clamp_min_def
        outside_def upt_2 ex_defs Let_def)
  have h9: "\<forall>n<length (ex_gt ! 0). length (ex_gt ! 0 ! n) = 2"
    by (simp add: ex_defs less_Suc_eq numeral_2_eq_2)
  have h10: "\<forall>n<length (ex_gt ! 0). length (bilinear (ex_pred ! 0 ! 0)
           (class_point (normalize_pixel_coordinates ex_lm_mixed (dim3 ex_pred) (dim4 ex_pred)) ex_gt 0 0 n)) = 2"
    unfolding d
    by (simp add: class_point_def normalize_pixel_coordinates_def clamp_min_def bilinear_def
        ex_defs Let_def less_Suc_eq numeral_2_eq_2)
  have v: "sparse_reference bilinear ex_pred (normalize_pixel_coordinates ex_lm_mixed 3 3) ex_gt MSELoss 2 0 0
             = Fin (1 / 2)"
    by (simp add: sparse_reference_def masked_landmark_losses_def class_point_def
        normalize_pixel_coordinates_def clamp_min_def outside_def bilinear_def dim_defs upt_2
        ex_defs MSELoss_def Let_def)
  from sparse_loss_mean_over_all_elements [where sample = bilinear and K = 2, OF h1 h2 h3 h4 h5 h6 h7 h8 h9 h10]
  show ?thesis using v by (simp add: d)
qed

text \<open>
  The claim C3 as it is written fails on the code: with one landmark of two in range, two
  UV values each, a zero prediction and the target value one, the squared errors sum to
  two; the code returns their mean over the four elements, one half, where the sum divided
  by the two valid elements plus one would be two thirds.
\<close>

theorem sparse_loss_count_normalised_counterexample:
  "landmark_uv_loss bilinear ex_pred ex_lm_mixed ex_gt MSELoss = Inr [[Fin (1 / 2)]]
   \<and> sparse_count_normalised bilinear ex_pred (normalize_pixel_coordinates ex_lm_mixed 3 3) ex_gt MSELoss 2 0 0
       = Fin (2 / 3)
   \<and> landmark_uv_loss bilinear ex_pred ex_lm_mixed ex_gt MSELoss
       \<noteq> Inr [[sparse_count_normalised bilinear ex_pred (normalize_pixel_coordinates ex_lm_mixed 3 3)
                  ex_gt MSELoss 2 0 0]]"
proof -
  have a: "landmark_uv_loss bilinear ex_pred ex_lm_mixed ex_gt MSELoss = Inr [[Fin (1 / 2)]]"
    by (simp add: landmark_uv_loss_def class_step_def isnan_any5_def MSELoss_def dim_defs
        normalize_pixel_coordinates_def clamp_min_def cumsum_def outside_def zero_rows_def
        set_column_def bilinear_def vmean_def apply_loss1_def ex_defs Let_def)
  have b: "sparse_count_normalised bilinear ex_pred (normalize_pixel_coordinates ex_lm_mixed 3 3)
             ex_gt MSELoss 2 0 0 = Fin (2 / 3)"
    by (simp add: sparse_count_normalised_def masked_landmark_losses_def class_point_def
        normalize_pixel_coordinates_def clamp_min_def outside_def bilinear_def dim_defs upt_2
        ex_defs MSELoss_def Let_def)
  show ?thesis by (simp add: a b)
qed

text \<open>
  C6, as the code has it. The assertion of the sparse loss is on its first argument, the
  predicted map: a call whose predicted map contains a NaN fails the assertion, and a
  call whose predicted map contains none and whose base loss has reduction \<^verbatim>\<open>'none'\<close>
  fails no assertion. The ground-truth UV values of the landmarks are not checked.
\<close>

theorem sparse_loss_asserts_on_prediction:
  "(isnan_any5 uv \<longrightarrow> landmark_uv_loss sample uv landmarks gt l = Inl AssertionError)
   \<and> (\<not> isnan_any5 uv \<and> reduction l = ''none'' \<longrightarrow>
        landmark_uv_loss sample uv landmarks gt l \<noteq> Inl AssertionError)"
  using landmark_assertion_iff [of sample uv landmarks gt l] by auto

theorem sparse_loss_asserts_on_prediction_witness:
  "isnan_any5 ex_pred_nan
   \<and> landmark_uv_loss bilinear ex_pred_nan ex_lm_mixed ex_gt MSELoss = Inl AssertionError
   \<and> \<not> isnan_any5 ex_pred \<and> reduction MSELoss = ''none''
   \<and> landmark_uv_loss bilinear ex_pred ex_lm_mixed ex_gt MSELoss \<noteq> Inl AssertionError"
proof -
  have h1: "isnan_any5 ex_pred_nan" by (simp add: ex_defs isnan_any5_def)
  have h2: "\<not> isnan_any5 ex_pred" by (simp add: ex_defs isnan_any5_def)
  have h3: "reduction MSELoss = ''none''" by (simp add: MSELoss_def)
  show ?thesis
    using sparse_loss_asserts_on_prediction [of ex_pred_nan bilinear ex_lm_mixed ex_gt MSELoss]
      sparse_loss_asserts_on_prediction [of ex_pred bilinear ex_lm_mixed ex_gt MSELoss]
      h1 h2 h3
    by simp
qed

text \<open>
  The claim C6 as it is written fails on the code in both directions: ground-truth UV
  values with a NaN pass (the loss of the class is NaN), and ground-truth values without
  a NaN do not prevent the assertion from failing on a NaN of the prediction.
\<close>

theorem sparse_loss_ground_truth_assertion_counterexample:
  "landmark_uv_loss bilinear ex_pred ex_lm_mixed ex_gt_nan MSELoss = Inr [[NaN]]
   \<and> landmark_uv_loss bilinear ex_pred_nan ex_lm_mixed ex_gt MSELoss = Inl AssertionError"
proof -
  have a: "landmark_uv_loss bilinear ex_pred ex_lm_mixed ex_gt_nan MSELoss = Inr [[NaN]]"
    by (simp add: landmark_uv_loss_def class_step_def isnan_any5_def MSELoss_def dim_defs
        normalize_pixel_coordinates_def clamp_min_def cumsum_def outside_def zero_rows_def
        set_column_def bilinear_def vmean_def apply_loss1_def ex_defs Let_def)
  have b: "landmark_uv_loss bilinear ex_pred_nan ex_lm_mixed ex_gt MSELoss = Inl AssertionError"
    by (simp add: landmark_uv_loss_def isnan_any5_def MSELoss_def ex_defs)
  show ?thesis by (simp add: a b)
qed

section \<open>Properties of the loss composition\<close>

lemma loss_composition_finite:
  assumes "w_seg \<noteq> 0 \<or> w_uv \<noteq> 0 \<or> w_tv \<noteq> 0"
    and "mode = ''train'' \<or> mode = ''test'' \<or> mode = ''val''"
  shows "forward_step mode [w_seg, w_uv, w_tv] ''dense''
           (Inr (Fin s)) (Inr (Fin r)) (Inr (Fin m)) (Inr (Fin t)) =
         Inr (Fin (w_seg * s + (w_uv * (r + m) / 2 + w_tv * t)), Fin (w_uv * (r + m) / 2 + w_tv * t))"
    and "forward_step mode [w_seg, w_uv, w_tv] ''sparse''
           (Inr (Fin s)) (Inr (Fin r)) (Inr (Fin m)) (Inr (Fin t)) =
         Inr (Fin (w_seg * s + (w_uv * m + w_tv * t)), Fin (w_uv * m + w_tv * t))"
  using assms by (auto simp: forward_step_def)

text \<open>
  C2. With a valid mode and weights that are not all zero, and losses \<open>s\<close> (segmentation),
  \<open>r\<close> (mean dense regression), \<open>m\<close> (mean sparse landmark) and \<open>t\<close> (mean total
  variation): in dense mode the combined UV loss is
  \<open>w_uv * (r + m) / 2 + w_tv * t\<close>, in sparse mode \<open>w_uv * m + w_tv * t\<close>, and the total
  loss is \<open>w_seg * s\<close> plus the combined UV loss, where a term whose weight is zero is
  left out (it is zero even if its loss is NaN). With \<open>w_seg = 0\<close> the segmentation loss
  is not computed at all: whatever its computation would give, an error included, the
  result is the same.
\<close>

theorem loss_composition_formulas:
  assumes "w_seg \<noteq> 0 \<or> w_uv \<noteq> 0 \<or> w_tv \<noteq> 0"
    and "mode = ''train'' \<or> mode = ''test'' \<or> mode = ''val''"
  shows "forward_step mode [w_seg, w_uv, w_tv] ''dense'' (Inr s) (Inr r) (Inr m) (Inr t) =
           Inr (vadd (weighted w_seg s)
                  (vadd (if w_uv = 0 then Fin 0 else vdiv (vmul (Fin w_uv) (vadd r m)) (Fin 2))
                        (weighted w_tv t)),
                vadd (if w_uv = 0 then Fin 0 else vdiv (vmul (Fin w_uv) (vadd r m)) (Fin 2))
                     (weighted w_tv t))
         \<and> forward_step mode [w_seg, w_uv, w_tv] ''sparse'' (Inr s) (Inr r) (Inr m) (Inr t) =
             Inr (vadd (weighted w_seg s) (vadd (weighted w_uv m) (weighted w_tv t)),
                  vadd (weighted w_uv m) (weighted w_tv t))
         \<and> (w_seg = 0 \<longrightarrow>
              forward_step mode [w_seg, w_uv, w_tv] supervision bce reg lm tv =
              forward_step mode [w_seg, w_uv, w_tv] supervision (Inr (Fin 0)) reg lm tv)"
  using assms by (auto simp: forward_step_def weighted_def)

theorem loss_composition_formulas_witness:
  "forward_step ''train'' [1, 2, 0] ''dense'' (Inr (Fin 3)) (Inr (Fin 1)) (Inr (Fin 5)) (Inr NaN)
     = Inr (Fin 9, Fin 6)
   \<and> forward_step ''train'' [1, 2, 0] ''sparse'' (Inr (Fin 3)) (Inr (Fin 1)) (Inr (Fin 5)) (Inr NaN)
     = Inr (Fin 13, Fin 10)
   \<and> forward_step ''val'' [0, 2, 1] ''dense'' (Inl RuntimeError) (Inr (Fin 1)) (Inr (Fin 5)) (Inr (Fin 4))
     = Inr (Fin 10, Fin 10)"
proof -
  have h1: "(1::real) \<noteq> 0 \<or> (2::real) \<noteq> 0 \<or> (0::real) \<noteq> 0" by simp
  have h2: "''train'' = ''train'' \<or> ''train'' = ''test'' \<or> ''train'' = ''val''" by simp
  have h3: "(0::real) \<noteq> 0 \<or> (2::real) \<noteq> 0 \<or> (1::real) \<noteq> 0" by simp
  have h4: "''val'' = ''train'' \<or> ''val'' = ''test'' \<or> ''val'' = ''val''" by simp
  have a: "forward_step ''val'' [0, 2, 1] ''dense'' (Inr (Fin 0)) (Inr (Fin 1)) (Inr (Fin 5)) (Inr (Fin 4))
             = Inr (Fin 10, Fin 10)"
    using loss_composition_formulas [OF h3 h4, of "Fin 0" "Fin 1" "Fin 5" "Fin 4"]
    by (simp add: weighted_def)
  show ?thesis
    using loss_composition_formulas [OF h1 h2, of "Fin 3" "Fin 1" "Fin 5" NaN]
      loss_composition_formulas [OF h3 h4, of _ _ _ _ "''dense''" "Inl RuntimeError"
        "Inr (Fin 1)" "Inr (Fin 5)" "Inr (Fin 4)"] a
    by (simp add: weighted_def)
qed

text \<open>
  C7. For a supervision mode other than \<^verbatim>\<open>'dense'\<close> and \<^verbatim>\<open>'sparse'\<close> the step on a batch
  never produces a loss: it ends in an error whatever the other inputs are. When nothing
  fails before (weights not all zero, mode \<^verbatim>\<open>'train'\<close>, the four losses computed), the
  error is the \<^verbatim>\<open>UnboundLocalError\<close> of reading \<^verbatim>\<open>uv_loss\<close>, which no branch has
  assigned.
\<close>

theorem unknown_supervision_fails:
  assumes "supervision \<noteq> ''dense''" and "supervision \<noteq> ''sparse''"
  shows "(\<exists>e. forward_step mode lambdas supervision bce reg lm tv = Inl e)
         \<and> (w_seg \<noteq> 0 \<or> w_uv \<noteq> 0 \<or> w_tv \<noteq> 0 \<longrightarrow>
              forward_step ''train'' [w_seg, w_uv, w_tv] supervision (Inr s) (Inr r) (Inr m) (Inr t)
                = Inl UnboundLocalError)"
  using assms
  by (auto simp: forward_step_def split: list.splits sum.splits)

theorem unknown_supervision_fails_witness:
  "forward_step ''train'' [1, 1, 1] ''both'' (Inr (Fin 1)) (Inr (Fin 1)) (Inr (Fin 1)) (Inr (Fin 1))
     = Inl UnboundLocalError"
proof -
  have h1: "''both'' \<noteq> ''dense''" and h2: "''both'' \<noteq> ''sparse''" by simp_all
  show ?thesis
    using unknown_supervision_fails [OF h1 h2, of _ _ _ _ _ _ 1 1 1 "Fin 1" "Fin 1" "Fin 1" "Fin 1"]
    by simp
qed

section \<open>Properties of the heatmap synthesis\<close>

text \<open>
  C9. For a landmark \<open>(lx, ly)\<close> of batch element \<open>b\<close> and a standard deviation other than
  zero, the heatmap has one channel for each landmark, and the value of the landmark's
  channel at row \<open>i\<close> and column \<open>j\<close> is
  \<open>alpha * exp (- ((j - lx)\<^sup>2 + (i - ly)\<^sup>2) / (2 * std_pixel\<^sup>2))\<close>. With \<open>alpha = 1\<close> and
  \<open>std_pixel = 1\<close>, the value at the landmark's own pixel is \<open>1\<close> and the value one pixel
  to its right is \<open>exp (- 1 / 2)\<close>.
\<close>

theorem heatmap_gaussian:
  assumes "std_pixel \<noteq> 0" and "b < length lm" and "n < length (lm ! b)"
    and "lm ! b ! n = (Fin lx, Fin ly)" and "i < H" and "j < W"
  shows "heatmap alpha std_pixel lm H W ! b ! n ! i ! j =
           Fin (of_int alpha * exp (- ((real j - lx)\<^sup>2 + (real i - ly)\<^sup>2) / (2 * (of_int std_pixel)\<^sup>2)))
         \<and> length (heatmap alpha std_pixel lm H W ! b) = length (lm ! b)
         \<and> (lx = real j \<and> ly = real i \<longrightarrow>
              heatmap 1 1 lm H W ! b ! n ! i ! j = Fin 1
              \<and> (Suc j < W \<longrightarrow> heatmap 1 1 lm H W ! b ! n ! i ! Suc j = Fin (exp (- (1 / 2)))))"
proof -
  have one: "(1::int) \<noteq> 0" by simp
  have len: "length (heatmap alpha std_pixel lm H W ! b) = length (lm ! b)"
    using assms(2) by (simp add: heatmap_def Let_def)
  have centre: "heatmap 1 1 lm H W ! b ! n ! i ! j = Fin 1" if "lx = real j" "ly = real i"
    using heatmap_value [OF one assms(2-6), of 1] that by simp
  have right: "heatmap 1 1 lm H W ! b ! n ! i ! Suc j = Fin (exp (- (1 / 2)))"
    if "lx = real j" "ly = real i" "Suc j < W"
    using heatmap_value [OF one assms(2-5) that(3), of 1] that(1,2) by simp
  show ?thesis
    using heatmap_value [OF assms, of alpha] len centre right by simp
qed

theorem heatmap_gaussian_witness:
  "heatmap 1 1 [[(Fin 1, Fin 1)]] 3 3 ! 0 ! 0 ! 1 ! 1 = Fin 1
   \<and> heatmap 1 1 [[(Fin 1, Fin 1)]] 3 3 ! 0 ! 0 ! 1 ! 2 = Fin (exp (- (1 / 2)))
   \<and> heatmap 1 1 [[(Fin 1, Fin 1)]] 3 3 ! 0 ! 0 ! 0 ! 0 = Fin (exp (- 1))
   \<and> length (heatmap 1 1 [[(Fin 1, Fin 1)]] 3 3 ! 0) = 1"
proof -
  have h1: "(1::int) \<noteq> 0" by simp
  have h2: "0 < length [[(Fin 1, Fin 1)]]" by simp
  have h3: "0 < length ([[(Fin 1, Fin 1)]] ! 0)" by simp
  have h4: "[[(Fin 1, Fin 1)]] ! 0 ! 0 = (Fin 1, Fin 1)" by simp
  have i1: "(1::nat) < 3" and i0: "(0::nat) < 3" by simp_all
  show ?thesis
    using heatmap_gaussian [OF h1 h2 h3 h4 i1 i1, of 1]
      heatmap_gaussian [OF h1 h2 h3 h4 i0 i0, of 1]
    by (simp add: numeral_2_eq_2)
qed

end
